theory Spec2Isabelle
  imports Main "HOL-Library.AList"
begin

section \<open>Statement lowering of the Vyper code generator (vyper/codegen/stmt.py)\<close>

text \<open>
  The module lowers one type-checked statement at a time into an IR tree. It is
  written against collaborators that live in other modules (expression lowering, the
  Context, the ABI encoder, the helpers of codegen/core). The functions of stmt.py are
  embedded here as they are written. Every function of a collaborator is a field of
  the record \<open>env\<close>, so each statement below holds for any behaviour of the
  collaborators; the few structural pieces stmt.py relies on (the IR node and its
  construction from lists, the caching builder, the scopes of the Context, the
  attributes of types) are modelled from the specification and marked so.
  A Python exception is a value \<open>Inl e\<close>; the mutable Context is threaded
  explicitly and is returned also when a fault is raised, as the Python object would
  be left.
\<close>

subsection \<open>Faults\<close>

datatype error =
    StructureException string
  | TypeCheckFailure string
  | CodegenPanic string
  | CompilerPanic string
  | AssertionError
  | AttributeError
  | KeyError
  | IndexError
  | OtherFault string

subsection \<open>Types, IR nodes, syntax tree\<close>

text \<open>
  Modelled from the spec: the semantic types (vyper/semantics/types is not part of the
  sources), as far as stmt.py looks into them. Integer types carry their signedness;
  a sequence type has an element type (\<open>value_type\<close>) and a static capacity
  (\<open>count\<close>); the dynamic array \<open>DArrayT\<close> is the sequence type with a
  run-time length bounded by that capacity.
\<close>

datatype vtype =
    IntegerT bool nat
  | BoolT
  | AddressT
  | BytesT nat
  | StringT nat
  | SArrayT vtype nat
  | DArrayT vtype nat
  | TupleT "vtype list"
  | OtherT string

definition UINT256_T :: vtype where
  "UINT256_T = IntegerT False 256"

text \<open>Attribute reads on a type; a type without the attribute raises AttributeError.\<close>

fun is_signed :: "vtype \<Rightarrow> error + bool" where
  "is_signed (IntegerT s _) = Inr s"
| "is_signed _ = Inl AttributeError"

fun count :: "vtype \<Rightarrow> error + nat" where
  "count (SArrayT _ n) = Inr n"
| "count (DArrayT _ n) = Inr n"
| "count _ = Inl AttributeError"

fun value_type :: "vtype \<Rightarrow> error + vtype" where
  "value_type (SArrayT t _) = Inr t"
| "value_type (DArrayT t _) = Inr t"
| "value_type _ = Inl AttributeError"

fun is_DArrayT :: "vtype \<Rightarrow> bool" where
  "is_DArrayT (DArrayT _ _) = True"
| "is_DArrayT _ = False"

datatype location = STORAGE | TRANSIENT | MEMORY | CALLDATA | IMMUTABLES | CODE

datatype irval = IInt int | IStr string

record ir_meta =
  m_typ :: "vtype option"
  m_location :: "location option"
  m_error_msg :: "string option"
  m_annotation :: "string option"

datatype irnode = IRnode (ir_value: irval) (ir_args: "irnode list") (ir_meta: ir_meta)

definition ir_typ :: "irnode \<Rightarrow> vtype option" where
  "ir_typ n = m_typ (ir_meta n)"

definition ir_location :: "irnode \<Rightarrow> location option" where
  "ir_location n = m_location (ir_meta n)"

text \<open>
  Modelled from the spec: \<open>IRnode.is_pointer\<close> (ir_node.py is not part of the
  sources). A node is an addressable location when it is tagged with the place it
  points into.
\<close>

definition is_pointer :: "irnode \<Rightarrow> bool" where
  "is_pointer n = (ir_location n \<noteq> None)"

definition set_annotation :: "string option \<Rightarrow> irnode \<Rightarrow> irnode" where
  "set_annotation a n = IRnode (ir_value n) (ir_args n) ((ir_meta n)\<lparr>m_annotation := a\<rparr>)"

text \<open>
  The nested Python lists that stmt.py hands to \<open>IRnode.from_list\<close>: a node, an
  integer, a string, or a list whose head is the operator.
\<close>

datatype irarg = N irnode | I int | S string | L string "irarg list"

text \<open>
  Modelled from the spec: \<open>IRnode.from_list\<close> (vyper/codegen/ir_node.py is not
  part of the sources). An IR node is a tagged tree: an operator tag, an ordered list of
  children, an optional semantic type, an optional error message. A list becomes the
  node of its operator over its converted elements, which are built under the same
  error message; a node given again keeps its fields, takes the type when one is
  given, and takes the location and the error message when it has none.
\<close>

fun from_list :: "irarg \<Rightarrow> vtype option \<Rightarrow> location option \<Rightarrow> string option \<Rightarrow> irnode" where
  "from_list (N n) t loc em =
     IRnode (ir_value n) (ir_args n)
       ((ir_meta n)\<lparr>m_typ := (case t of None \<Rightarrow> m_typ (ir_meta n) | Some ty \<Rightarrow> Some ty),
                     m_location := (case m_location (ir_meta n) of None \<Rightarrow> loc | Some l \<Rightarrow> Some l),
                     m_error_msg := (case m_error_msg (ir_meta n) of None \<Rightarrow> em | Some m \<Rightarrow> Some m)\<rparr>)"
| "from_list (I i) t loc em =
     IRnode (IInt i) [] \<lparr>m_typ = t, m_location = loc, m_error_msg = em, m_annotation = None\<rparr>"
| "from_list (S s) t loc em =
     IRnode (IStr s) [] \<lparr>m_typ = t, m_location = loc, m_error_msg = em, m_annotation = None\<rparr>"
| "from_list (L op xs) t loc em =
     IRnode (IStr op) (map (\<lambda>x. from_list x None None em) xs)
       \<lparr>m_typ = t, m_location = loc, m_error_msg = em, m_annotation = None\<rparr>"

text \<open>\<open>IRnode("debugger")\<close>: the constructor with its defaults.\<close>

definition IRnode0 :: "irval \<Rightarrow> irnode" where
  "IRnode0 v = IRnode v [] \<lparr>m_typ = None, m_location = None, m_error_msg = None, m_annotation = None\<rparr>"

text \<open>
  Modelled from the spec: \<open>IRnode.int_value\<close> (ir_node.py is not part of the
  sources), the compile-time integer of a literal node; any other node fails the
  assertion.
\<close>

definition int_value :: "irnode \<Rightarrow> error + int" where
  "int_value n = (case ir_value n of IInt i \<Rightarrow> Inr i | IStr _ \<Rightarrow> Inl AssertionError)"

text \<open>The syntax tree, as produced upstream.\<close>

datatype vy_expr =
    Name string
  | Tuple "vy_expr list"
  | Call vy_expr "vy_expr list" "(string \<times> vy_expr) list"
  | IntLit int
  | StrLit string
  | Subscript vy_expr vy_expr
  | ListLit "vy_expr list"
  | OtherExpr nat

datatype binop = Add | Sub | Mult | Div | FloorDiv | Mod | Pow | BitAnd | BitOr | BitXor | LShift | RShift

record event_t =
  event_name :: string
  indexed :: "bool list"

text \<open>
  A statement node carries its source text and its \<open>is_terminus\<close> flag, both
  attached upstream. \<open>For\<close> holds the loop variable's name, its type from
  \<open>_metadata\<close> (None: no such key), the iterated expression and the body;
  \<open>AnnAssign\<close> the target's name and type and the value.
\<close>

datatype stmt = Stmt (node_source_code: "string option") (is_terminus: bool) (node: stmt_node)
and stmt_node =
    ExprStmt vy_expr
  | Pass
  | NameStmt string
  | AnnAssign string vtype "vy_expr option"
  | Assign vy_expr vy_expr
  | IfStmt vy_expr "stmt list" "stmt list"
  | Log event_t "vy_expr list" "(string \<times> vy_expr) list"
  | Assert vy_expr "vy_expr option"
  | Raise "vy_expr option"
  | For string "vtype option" vy_expr "stmt list"
  | AugAssign vy_expr binop vy_expr
  | Continue
  | Break
  | Return "vy_expr option"

subsection \<open>The Context and the lowering monad\<close>

datatype constancy = Mutable | Constant

text \<open>
  The Context: the fields stmt.py reads and writes itself (\<open>constancy\<close>,
  \<open>forvars\<close>, \<open>return_type\<close>), and the rest of its state (variables, scopes,
  the allocator, the name counter), which only the Context's own methods touch.
\<close>

record 'c Context =
  constancy :: constancy
  forvars :: "string \<rightharpoonup> bool"
  return_type :: "vtype option"
  internals :: 'c

type_synonym ('c, 'a) lowering = "'c Context \<Rightarrow> (error + 'a) \<times> 'c Context"

definition returnL :: "'a \<Rightarrow> ('c, 'a) lowering" where
  "returnL v = (\<lambda>ctx. (Inr v, ctx))"

definition raiseL :: "error \<Rightarrow> ('c, 'a) lowering" where
  "raiseL e = (\<lambda>ctx. (Inl e, ctx))"

definition liftE :: "error + 'a \<Rightarrow> ('c, 'a) lowering" where
  "liftE r = (\<lambda>ctx. (r, ctx))"

definition bindL :: "('c, 'a) lowering \<Rightarrow> ('a \<Rightarrow> ('c, 'b) lowering) \<Rightarrow> ('c, 'b) lowering" where
  "bindL m f = (\<lambda>ctx. case m ctx of (Inl e, ctx') \<Rightarrow> (Inl e, ctx') | (Inr v, ctx') \<Rightarrow> f v ctx')"

text \<open>A list comprehension over a lowering: left to right, stopping at the first fault.\<close>

fun mapL :: "('a \<Rightarrow> ('c, 'b) lowering) \<Rightarrow> 'a list \<Rightarrow> ('c, 'b list) lowering" where
  "mapL f [] = returnL []"
| "mapL f (x # xs) = bindL (f x) (\<lambda>y. bindL (mapL f xs) (\<lambda>ys. returnL (y # ys)))"

subsection \<open>Collaborators\<close>

text \<open>
  A variable as the aliasing analysis reports it, with what stmt.py reads of it: its
  type and whether it is a state variable.
\<close>

record varinfo =
  var_name :: string
  var_typ :: vtype
  var_is_state :: bool

text \<open>
  Modelled from the spec: the Context's scopes (vyper/codegen/context.py is not part
  of the sources), entered and left with release on every exit path.
\<close>

record 'c scope =
  enter :: "'c Context \<Rightarrow> 'c Context"
  leave :: "'c Context \<Rightarrow> 'c Context"

definition with_scope :: "'c scope \<Rightarrow> ('c, 'a) lowering \<Rightarrow> ('c, 'a) lowering" where
  "with_scope sc body = (\<lambda>ctx. case body (enter sc ctx) of (r, ctx') \<Rightarrow> (r, leave sc ctx'))"

text \<open>
  Everything stmt.py imports and calls. Methods that take the Context are lowerings;
  the helpers of codegen/core are functions that may raise.
\<close>

record 'c env =
  Expr_ir :: "vy_expr \<Rightarrow> bool \<Rightarrow> ('c, irnode) lowering"
  parse_value_expr :: "vy_expr \<Rightarrow> ('c, irnode) lowering"
  parse_pointer_expr :: "vy_expr \<Rightarrow> ('c, irnode) lowering"
  handle_binop :: "binop \<Rightarrow> irnode \<Rightarrow> irnode \<Rightarrow> ('c, irnode) lowering"
  new_variable :: "string \<Rightarrow> vtype \<Rightarrow> ('c, irnode) lowering"
  new_internal_variable :: "vtype option \<Rightarrow> ('c, irnode) lowering"
  fresh_varname :: "string \<Rightarrow> ('c, string) lowering"
  block_scope :: "'c scope"
  range_scope :: "'c scope"
  internal_memory_scope :: "'c scope"
  writeable :: "'c Context \<Rightarrow> irnode \<Rightarrow> bool"
  make_setter :: "irnode \<Rightarrow> irnode \<Rightarrow> error + irnode"
  could_overlap :: "irnode \<Rightarrow> irnode \<Rightarrow> bool"
  LOAD :: "irnode \<Rightarrow> error + irarg"
  STORE :: "irnode \<Rightarrow> irnode \<Rightarrow> error + irarg"
  add_ofst :: "irnode \<Rightarrow> int \<Rightarrow> irnode"
  clamp_le :: "irnode \<Rightarrow> irnode \<Rightarrow> bool \<Rightarrow> error + irnode"
  get_dyn_array_count :: "irnode \<Rightarrow> error + irnode"
  get_element_ptr :: "irnode \<Rightarrow> irnode \<Rightarrow> bool \<Rightarrow> error + irnode"
  get_type_for_exact_size :: "nat \<Rightarrow> vtype"
  wrap_value_for_external_return :: "irnode \<Rightarrow> error + irnode"
  abi_encode :: "irnode \<Rightarrow> irnode \<Rightarrow> nat \<Rightarrow> bool \<Rightarrow> ('c, irnode) lowering"
  make_return_stmt :: "irnode option \<Rightarrow> stmt \<Rightarrow> ('c, irnode) lowering"
  ir_node_for_log :: "stmt \<Rightarrow> event_t \<Rightarrow> irnode list \<Rightarrow> irnode list \<Rightarrow> ('c, irnode) lowering"
  tag_exceptions :: "stmt \<Rightarrow> string \<Rightarrow> error \<Rightarrow> error"
  is_prim_word :: "vtype \<Rightarrow> bool"
  memory_bytes_required :: "vtype \<Rightarrow> nat"
  referenced_variables :: "irnode \<Rightarrow> varinfo list"
  variable_writes :: "irnode \<Rightarrow> varinfo list"
  contains_writeable_call :: "irnode \<Rightarrow> bool"
  is_complex_ir :: "irnode \<Rightarrow> bool"
  keccak256 :: "nat list \<Rightarrow> nat list"

text \<open>
  Modelled from the spec: \<open>potential_overlap\<close> (vyper/codegen/core.py is not part
  of the sources). For an assignment of a multi-word type it is the static test
  whether the left and the right subtree could reference overlapping storage; that
  test is the parameter \<open>could_overlap\<close>. An assignment of a single-word type is
  atomic and never needs staging, so there the answer is no. The assigned type is
  the type of the right-hand value.
\<close>

definition potential_overlap :: "'c env \<Rightarrow> irnode \<Rightarrow> irnode \<Rightarrow> bool" where
  "potential_overlap env left right =
     (case ir_typ right of
        None \<Rightarrow> False
      | Some ty \<Rightarrow> \<not> is_prim_word env ty \<and> could_overlap env left right)"

text \<open>
  Modelled from the spec: \<open>IRnode.cache_when_complex\<close> and the builder's
  \<open>resolve\<close> (ir_node.py is not part of the sources): a complex subexpression is
  computed once and bound to a name, and the dependent IR is built from the bound
  variable, which stands for the same value (same type, same location); a simple one
  is used as it is.
\<close>

record builder =
  should_inline :: bool
  b_ir_var :: irnode
  b_ir_node :: irnode

definition cache_when_complex :: "'c env \<Rightarrow> irnode \<Rightarrow> string \<Rightarrow> builder \<times> irnode" where
  "cache_when_complex env n name =
     (let var = from_list (S name) (ir_typ n) (ir_location n) None;
          inl = \<not> is_complex_ir env n
      in (\<lparr>should_inline = inl, b_ir_var = var, b_ir_node = n\<rparr>, if inl then n else var))"

definition resolve :: "builder \<Rightarrow> irarg \<Rightarrow> irarg" where
  "resolve b body =
     (if should_inline b then body
      else (case body of
              N n \<Rightarrow> N (from_list (L ''with'' [N (b_ir_var b), N (b_ir_node b), body])
                          (ir_typ n) (ir_location n) None)
            | _ \<Rightarrow> L ''with'' [N (b_ir_var b), N (b_ir_node b), body]))"

subsection \<open>vyper/utils.py: the method id\<close>

definition fourbytes_to_int :: "nat list \<Rightarrow> error + int" where
  "fourbytes_to_int inp =
     (if length inp < 4 then Inl IndexError
      else Inr (int (inp ! 0) * 2 ^ 24 + int (inp ! 1) * 2 ^ 16 + int (inp ! 2) * 2 ^ 8 + int (inp ! 3)))"

definition method_id :: "'c env \<Rightarrow> string \<Rightarrow> nat list" where
  "method_id env method_str = take 4 (keccak256 env (map of_char method_str))"

definition method_id_int :: "'c env \<Rightarrow> string \<Rightarrow> error + int" where
  "method_id_int env method_sig = fourbytes_to_int (method_id env method_sig)"

subsection \<open>Assignment targets\<close>

text \<open>
  \<open>Stmt._get_target\<close>. The first check refuses a bare name that is an active
  loop variable; a tuple is lowered as a whole and every item must be writeable; any
  other target is lowered as a pointer and must be writeable.
\<close>

definition get_target :: "'c env \<Rightarrow> vy_expr \<Rightarrow> ('c, irnode) lowering" where
  "get_target env target = (\<lambda>ctx.
     if (case target of Name x \<Rightarrow> forvars ctx x \<noteq> None | _ \<Rightarrow> False)
     then (Inl (TypeCheckFailure ''Failed constancy check''), ctx)
     else if (case target of Tuple _ \<Rightarrow> True | _ \<Rightarrow> False)
     then bindL (Expr_ir env target False)
            (\<lambda>t ctx'. if list_ex (\<lambda>item. \<not> writeable env ctx' item) (ir_args t)
                      then (Inl (TypeCheckFailure ''Failed constancy check''), ctx')
                      else (Inr t, ctx')) ctx
     else bindL (parse_pointer_expr env target)
            (\<lambda>t ctx'. if \<not> writeable env ctx' t
                      then (Inl (TypeCheckFailure ''Failed constancy check''), ctx')
                      else (Inr t, ctx')) ctx)"

subsection \<open>Assignments\<close>

text \<open>\<open>Stmt.parse_AnnAssign\<close>.\<close>

definition parse_AnnAssign :: "'c env \<Rightarrow> string \<Rightarrow> vtype \<Rightarrow> vy_expr option \<Rightarrow> ('c, irnode) lowering" where
  "parse_AnnAssign env varname ltyp val =
     bindL (new_variable env varname ltyp) (\<lambda>lhs.
       case val of
         None \<Rightarrow> raiseL AssertionError
       | Some v \<Rightarrow> bindL (Expr_ir env v False) (\<lambda>rhs. liftE (make_setter env lhs rhs)))"

text \<open>\<open>Stmt.parse_Assign\<close>: the right-hand side is lowered first, then the target.\<close>

definition parse_Assign :: "'c env \<Rightarrow> vy_expr \<Rightarrow> vy_expr \<Rightarrow> ('c, irnode) lowering" where
  "parse_Assign env target val =
     bindL (Expr_ir env val False) (\<lambda>src.
     bindL (get_target env target) (\<lambda>dst.
       if potential_overlap env dst src
       then bindL (new_internal_variable env (ir_typ src)) (\<lambda>tmp.
            bindL (liftE (make_setter env tmp src)) (\<lambda>s1.
            bindL (liftE (make_setter env dst tmp)) (\<lambda>s2.
              returnL (from_list (L ''seq'' [N s1, N s2]) None None None))))
       else bindL (liftE (make_setter env dst src)) (\<lambda>s2.
              returnL (from_list (L ''seq'' [N s2]) None None None))))"

text \<open>
  The loop of \<open>Stmt.parse_AugAssign\<close> over \<open>target.referenced_variables\<close>:
  a variable of a single-word type is skipped; any other one raises when the right-hand
  side writes it, or when it is a state variable and the right-hand side contains a
  writeable call.
\<close>

fun check_referenced :: "'c env \<Rightarrow> irnode \<Rightarrow> varinfo list \<Rightarrow> error + unit" where
  "check_referenced env right [] = Inr ()"
| "check_referenced env right (var # vars) =
     (if is_prim_word env (var_typ var) then check_referenced env right vars
      else if var \<in> set (variable_writes env right)
              \<or> (var_is_state var \<and> contains_writeable_call env right)
      then Inl (CodegenPanic ''unreachable'')
      else check_referenced env right vars)"

text \<open>\<open>Stmt.parse_AugAssign\<close>; it returns what \<open>b.resolve\<close> returns.\<close>

definition parse_AugAssign :: "'c env \<Rightarrow> vy_expr \<Rightarrow> binop \<Rightarrow> vy_expr \<Rightarrow> ('c, irarg) lowering" where
  "parse_AugAssign env target_e op val =
     bindL (get_target env target_e) (\<lambda>target0.
     bindL (parse_value_expr env val) (\<lambda>right.
       case ir_typ target0 of
         None \<Rightarrow> raiseL AttributeError
       | Some ty \<Rightarrow>
           if \<not> is_prim_word env ty then raiseL (TypeCheckFailure ''unreachable'')
           else bindL (liftE (check_referenced env right (referenced_variables env target0))) (\<lambda>_.
                  case cache_when_complex env target0 ''_loc'' of (b, target) \<Rightarrow>
                    bindL (liftE (LOAD env target)) (\<lambda>ld.
                    bindL (handle_binop env op (from_list ld (ir_typ target) None None) right) (\<lambda>new_val.
                    bindL (liftE (STORE env target new_val)) (\<lambda>st.
                      returnL (resolve b st)))))))"

subsection \<open>Assert and raise\<close>

text \<open>
  Lines 127 to 132 of \<open>Stmt._assert_reason\<close>: the message is lowered with the
  Context's constancy set to Constant; the \<open>finally\<close> clause puts the saved
  value back whether the lowering returned or raised.
\<close>

definition assert_reason_msg_ir :: "'c env \<Rightarrow> vy_expr \<Rightarrow> ('c, irnode) lowering" where
  "assert_reason_msg_ir env msg = (\<lambda>ctx.
     let tmp = constancy ctx in
     case Expr_ir env msg False (ctx\<lparr>constancy := Constant\<rparr>) of
       (r, ctx') \<Rightarrow> (r, ctx'\<lparr>constancy := tmp\<rparr>))"

text \<open>\<open>Stmt._assert_reason\<close>; \<open>test_expr\<close> is None when called from parse_Raise.\<close>

definition assert_reason :: "'c env \<Rightarrow> irnode option \<Rightarrow> vy_expr \<Rightarrow> ('c, irnode) lowering" where
  "assert_reason env test_expr msg =
     (if msg = Name ''UNREACHABLE''
      then (case test_expr of
              None \<Rightarrow> returnL (from_list (L ''invalid'' []) None None (Some ''raise unreachable''))
            | Some t \<Rightarrow> returnL (from_list (L ''assert_unreachable'' [N t]) None None
                                   (Some ''assert unreachable'')))
      else
        bindL (assert_reason_msg_ir env msg) (\<lambda>msg_ir0.
        bindL (liftE (wrap_value_for_external_return env msg_ir0)) (\<lambda>msg_ir.
          case ir_typ msg_ir of
            None \<Rightarrow> raiseL AttributeError
          | Some ty \<Rightarrow>
              let bufsz = 64 + memory_bytes_required env ty in
              bindL (new_internal_variable env (Some (get_type_for_exact_size env bufsz))) (\<lambda>buf.
              bindL (liftE (method_id_int env ''Error(string)'')) (\<lambda>mid.
              bindL (abi_encode env (add_ofst env buf 32) msg_ir (bufsz - 32) True) (\<lambda>encoded_length0.
                case cache_when_complex env encoded_length0 ''encoded_len'' of (b1, encoded_length) \<Rightarrow>
                  let revert_seq =
                        resolve b1 (L ''seq'' [L ''mstore'' [N buf, I mid],
                                     L ''revert'' [N (add_ofst env buf 28), L ''add'' [I 4, N encoded_length]]]);
                      ir_node = (case test_expr of
                                   None \<Rightarrow> revert_seq
                                 | Some t \<Rightarrow> L ''if'' [L ''iszero'' [N t], revert_seq])
                  in returnL (from_list ir_node None None (Some ''user revert with reason''))))))))"

text \<open>\<open>Stmt.parse_Assert\<close> and \<open>Stmt.parse_Raise\<close>.\<close>

definition parse_Assert :: "'c env \<Rightarrow> vy_expr \<Rightarrow> vy_expr option \<Rightarrow> ('c, irnode) lowering" where
  "parse_Assert env test msg =
     bindL (parse_value_expr env test) (\<lambda>test_expr.
       case msg of
         Some m \<Rightarrow> assert_reason env (Some test_expr) m
       | None \<Rightarrow> returnL (from_list (L ''assert'' [N test_expr]) None None (Some ''user assert'')))"

definition parse_Raise :: "'c env \<Rightarrow> vy_expr option \<Rightarrow> ('c, irnode) lowering" where
  "parse_Raise env exc =
     (case exc of
        Some e \<Rightarrow> assert_reason env None e
      | None \<Rightarrow> returnL (from_list (L ''revert'' [I 0, I 0]) None None (Some ''user raise'')))"

subsection \<open>The statements without a body\<close>

definition parse_Expr :: "'c env \<Rightarrow> vy_expr \<Rightarrow> ('c, irnode) lowering" where
  "parse_Expr env val = Expr_ir env val True"

definition parse_Pass :: "('c, irnode) lowering" where
  "parse_Pass = returnL (from_list (S ''pass'') None None None)"

definition parse_Name :: "string \<Rightarrow> ('c, irnode) lowering" where
  "parse_Name ident =
     (if ident = ''vdb'' then returnL (IRnode0 (IStr ''debugger''))
      else raiseL (StructureException ''Unsupported statement type''))"

definition parse_Log :: "'c env \<Rightarrow> stmt \<Rightarrow> event_t \<Rightarrow> vy_expr list \<Rightarrow> (string \<times> vy_expr) list \<Rightarrow> ('c, irnode) lowering" where
  "parse_Log env st event args keywords =
     (let to_compile = (if length keywords > 0 then map snd keywords else args) in
      bindL (mapL (\<lambda>arg. Expr_ir env arg False) to_compile) (\<lambda>args_ir.
        let pairs = zip args_ir (indexed event);
            topic_ir = map fst (filter snd pairs);
            data_ir = map fst (filter (\<lambda>p. \<not> snd p) pairs)
        in ir_node_for_log env st event topic_ir data_ir))"

definition parse_Continue :: "('c, irnode) lowering" where
  "parse_Continue = returnL (from_list (S ''continue'') None None None)"

definition parse_Break :: "('c, irnode) lowering" where
  "parse_Break = returnL (from_list (S ''break'') None None None)"

definition parse_Return :: "'c env \<Rightarrow> stmt \<Rightarrow> vy_expr option \<Rightarrow> ('c, irnode) lowering" where
  "parse_Return env st val =
     (case val of
        None \<Rightarrow> make_return_stmt env None st
      | Some v \<Rightarrow> bindL (Expr_ir env v False) (\<lambda>ir_val. make_return_stmt env (Some ir_val) st))"

subsection \<open>Loops: the parts before and after the body\<close>

definition bindE :: "error + 'a \<Rightarrow> ('a \<Rightarrow> error + 'b) \<Rightarrow> error + 'b" where
  "bindE r f = (case r of Inl e \<Rightarrow> Inl e | Inr v \<Rightarrow> f v)"

text \<open>\<open>self.context.forvars[varname] = True\<close> and \<open>del self.context.forvars[varname]\<close>.\<close>

definition set_forvar :: "string \<Rightarrow> ('c, unit) lowering" where
  "set_forvar varname = (\<lambda>ctx. (Inr (), ctx\<lparr>forvars := (forvars ctx)(varname \<mapsto> True)\<rparr>))"

definition del_forvar :: "string \<Rightarrow> ('c, unit) lowering" where
  "del_forvar varname = (\<lambda>ctx.
     if forvars ctx varname = None then (Inl KeyError, ctx)
     else (Inr (), ctx\<lparr>forvars := (forvars ctx)(varname := None)\<rparr>))"

text \<open>The dict comprehension over \<open>range_call.keywords\<close>: a later key replaces an earlier one.\<close>

fun lower_keywords :: "'c env \<Rightarrow> (string \<times> vy_expr) list \<Rightarrow> (string \<times> irnode) list \<Rightarrow> ('c, (string \<times> irnode) list) lowering" where
  "lower_keywords env [] kwargs = returnL kwargs"
| "lower_keywords env (kw # rest) kwargs =
     bindL (parse_value_expr env (snd kw)) (\<lambda>v. lower_keywords env rest (AList.update (fst kw) v kwargs))"

text \<open>Lines 188 to 200 of \<open>Stmt._parse_For_range\<close>: the endpoints and the keywords, inside the range scope.\<close>

definition range_endpoints :: "'c env \<Rightarrow> vtype \<Rightarrow> vy_expr list \<Rightarrow> (string \<times> vy_expr) list \<Rightarrow> ('c, irnode \<times> irnode \<times> (string \<times> irnode) list) lowering" where
  "range_endpoints env target_type args keywords =
     with_scope (range_scope env)
       (bindL (mapL (parse_value_expr env) args) (\<lambda>args_ir.
        bindL (case args_ir of
                 [e] \<Rightarrow> returnL (from_list (I 0) (Some target_type) None None, e)
               | [s, e] \<Rightarrow> returnL (s, e)
               | _ \<Rightarrow> raiseL (TypeCheckFailure ''unreachable'')) (\<lambda>se.
        bindL (lower_keywords env keywords []) (\<lambda>kwargs.
          returnL (fst se, snd se, kwargs)))))"

text \<open>
  Lines 203 to 220: the round count and its bound. With a \<open>bound\<close> keyword the
  count is the IR \<open>end - clamp_le(start, end)\<close> and the bound is the keyword's
  integer; without it both are the integer \<open>end - start\<close>. A stray keyword fails
  the assertion; a bound below 1 is a TypeCheckFailure.
\<close>

definition range_rounds :: "'c env \<Rightarrow> vtype \<Rightarrow> irnode \<Rightarrow> irnode \<Rightarrow> (string \<times> irnode) list \<Rightarrow> error + (builder \<times> irnode \<times> irarg \<times> int)" where
  "range_rounds env target_type start0 end0 kwargs =
     (if \<not> (ir_typ start0 = ir_typ end0 \<and> ir_typ end0 = Some target_type) then Inl AssertionError
      else case cache_when_complex env start0 ''start'' of (b1, start_ir) \<Rightarrow>
        bindE (case map_of kwargs ''bound'' of
                 Some bound_ir \<Rightarrow>
                   (case cache_when_complex env end0 ''end'' of (b2, end_ir) \<Rightarrow>
                      bindE (is_signed target_type) (\<lambda>sg.
                      bindE (clamp_le env start_ir end_ir sg) (\<lambda>clamped_start.
                      bindE (int_value bound_ir) (\<lambda>rounds_bound.
                        Inr (resolve b2 (N (from_list (L ''sub'' [N end_ir, N clamped_start]) None None None)),
                             rounds_bound, AList.delete ''bound'' kwargs)))))
               | None \<Rightarrow>
                   bindE (int_value end0) (\<lambda>e.
                   bindE (int_value start_ir) (\<lambda>s.
                     Inr (I (e - s), e - s, kwargs))))
          (\<lambda>(rounds, rounds_bound, kwargs').
             if kwargs' \<noteq> [] then Inl AssertionError
             else if rounds_bound < 1 then Inl (TypeCheckFailure ''unreachable: unchecked 0 bound'')
             else Inr (b1, start_ir, rounds, rounds_bound)))"

text \<open>Lines 182 to 226: all of \<open>_parse_For_range\<close> that runs before the body is lowered.\<close>

definition for_range_setup :: "'c env \<Rightarrow> string \<Rightarrow> vtype option \<Rightarrow> vy_expr list \<Rightarrow> (string \<times> vy_expr) list \<Rightarrow> ('c, builder \<times> irnode \<times> irarg \<times> int \<times> irnode \<times> irnode) lowering" where
  "for_range_setup env varname target_type_opt args keywords =
     (case target_type_opt of
        None \<Rightarrow> raiseL AssertionError
      | Some target_type \<Rightarrow>
          bindL (range_endpoints env target_type args keywords) (\<lambda>(start0, end0, kwargs).
          bindL (liftE (range_rounds env target_type start0 end0 kwargs)) (\<lambda>(b1, start_ir, rounds, rounds_bound).
          bindL (fresh_varname env ''range_ix'') (\<lambda>ix.
          bindL (new_variable env varname target_type) (\<lambda>iptr.
          bindL (set_forvar varname) (\<lambda>_.
            returnL (b1, start_ir, rounds, rounds_bound,
                     from_list (S ix) (Some target_type) None None, iptr)))))))"

text \<open>Lines 233 to 241: after the body, the loop variable is unregistered and the repeat is built.\<close>

definition for_range_finish :: "string \<Rightarrow> builder \<times> irnode \<times> irarg \<times> int \<times> irnode \<times> irnode \<Rightarrow> irnode \<Rightarrow> ('c, irarg) lowering" where
  "for_range_finish varname hdr body_ir =
     (case hdr of (b1, start_ir, rounds, rounds_bound, i, iptr) \<Rightarrow>
        bindL (del_forvar varname) (\<lambda>_.
          returnL (resolve b1 (N (from_list
            (L ''repeat'' [N i, N start_ir, rounds, I rounds_bound,
                           L ''seq'' [L ''mstore'' [N iptr, N i], N body_ir]])
            None None (Some ''range() bounds check''))))))"

text \<open>
  Lines 244 to 269 of \<open>Stmt._parse_For_list\<close>: all that runs before the body is
  lowered. The result holds the statements collected in \<open>ret\<close> so far, the builder,
  the (cached) list, the index and the setter of the loop variable.
\<close>

definition for_list_setup :: "'c env \<Rightarrow> string \<Rightarrow> vtype option \<Rightarrow> vy_expr \<Rightarrow> ('c, irarg list \<times> builder \<times> irnode \<times> irnode \<times> irnode) lowering" where
  "for_list_setup env varname target_type_opt iter =
     bindL (with_scope (range_scope env) (Expr_ir env iter False)) (\<lambda>iter_list0.
       case target_type_opt of
         None \<Rightarrow> raiseL KeyError
       | Some target_type \<Rightarrow>
          (case ir_typ iter_list0 of
             None \<Rightarrow> raiseL AttributeError
           | Some lt \<Rightarrow>
               bindL (liftE (value_type lt)) (\<lambda>vt.
                 if target_type \<noteq> vt then raiseL AssertionError
                 else
                   bindL (new_variable env varname target_type) (\<lambda>loop_var.
                   bindL (fresh_varname env ''for_list_ix'') (\<lambda>ix.
                   bindL (set_forvar varname) (\<lambda>_.
                   bindL (if \<not> is_pointer iter_list0
                          then bindL (new_internal_variable env (ir_typ iter_list0)) (\<lambda>tmp_list.
                               bindL (liftE (make_setter env tmp_list iter_list0)) (\<lambda>st.
                                 returnL ([N st], tmp_list)))
                          else returnL ([], iter_list0)) (\<lambda>(ret, iter_list1).
                     case cache_when_complex env iter_list1 ''list_iter'' of (b1, iter_list) \<Rightarrow>
                       let i = from_list (S ix) (Some UINT256_T) None None in
                       bindL (liftE (get_element_ptr env iter_list i False)) (\<lambda>e.
                       bindL (liftE (make_setter env loop_var e)) (\<lambda>st.
                         returnL (ret, b1, iter_list, i, st))))))))))"

text \<open>Lines 271 to 280: the bound, the round count, the repeat.\<close>

definition for_list_finish :: "'c env \<Rightarrow> string \<Rightarrow> irarg list \<times> builder \<times> irnode \<times> irnode \<times> irnode \<Rightarrow> irnode \<Rightarrow> ('c, irarg) lowering" where
  "for_list_finish env varname hdr body_ir =
     (case hdr of (ret, b1, iter_list, i, setter) \<Rightarrow>
        (case ir_typ iter_list of
           None \<Rightarrow> raiseL AttributeError
         | Some lt \<Rightarrow>
             bindL (liftE (count lt)) (\<lambda>repeat_bound.
             bindL (if is_DArrayT lt
                    then bindL (liftE (get_dyn_array_count env iter_list)) (\<lambda>n. returnL (N n))
                    else returnL (I (int repeat_bound))) (\<lambda>array_len.
             bindL (del_forvar varname) (\<lambda>_.
               returnL (resolve b1 (N (from_list
                 (L ''seq'' (ret @ [L ''repeat'' [N i, I 0, array_len, I (int repeat_bound),
                                                  L ''seq'' [N setter, N body_ir]]]))
                 None None None))))))))"

subsection \<open>Terminated bodies\<close>

text \<open>
  \<open>_is_terminated\<close>. \<open>code[-1]\<close> raises IndexError on an empty list; Python's
  \<open>and\<close> does not look at the else branch when the then branch is not terminated.
\<close>

lemma size_last_le: "code \<noteq> [] \<Longrightarrow> size (last code) < Suc (size_list size code)"
  by (induction code) (auto split: if_splits)

function is_terminated :: "stmt list \<Rightarrow> error + bool" where
  "is_terminated code =
     (if code = [] then Inl IndexError
      else if is_terminus (last code) then Inr True
      else (case node (last code) of
              IfStmt _ body orelse \<Rightarrow>
                if orelse \<noteq> []
                then (case is_terminated body of
                        Inl e \<Rightarrow> Inl e
                      | Inr b \<Rightarrow> if b then is_terminated orelse else Inr False)
                else Inr False
            | _ \<Rightarrow> Inr False))"
  by pat_completeness auto
termination
proof (relation "measure (size_list size)")
  show "wf (measure (size_list size))" by simp
next
  fix code :: "stmt list" and x1 body orelse
  assume ne: "code \<noteq> []" and nd: "node (last code) = IfStmt x1 body orelse"
  have "size (last code) < Suc (size_list size code)" using ne by (rule size_last_le)
  moreover have "size_list size body < size (last code)"
    using nd by (cases "last code") simp
  ultimately show "(body, code) \<in> measure (size_list size)" by simp
next
  fix code :: "stmt list" and x1 body orelse
  assume ne: "code \<noteq> []" and nd: "node (last code) = IfStmt x1 body orelse"
  have "size (last code) < Suc (size_list size code)" using ne by (rule size_last_le)
  moreover have "size_list size orelse < size (last code)"
    using nd by (cases "last code") simp
  ultimately show "(orelse, code) \<in> measure (size_list size)" by simp
qed

declare is_terminated.simps [simp del]

text \<open>
  What the specification calls terminated, in its own words: the final statement is a
  terminus, or it is an \<open>if\<close> with both branches present and both branches
  terminated. Every other shape is not terminated.
\<close>

inductive terminated_spec :: "stmt list \<Rightarrow> bool" where
  terminus: "code \<noteq> [] \<Longrightarrow> is_terminus (last code) \<Longrightarrow> terminated_spec code"
| if_else: "code \<noteq> [] \<Longrightarrow> node (last code) = IfStmt test body orelse \<Longrightarrow> orelse \<noteq> [] \<Longrightarrow>
            terminated_spec body \<Longrightarrow> terminated_spec orelse \<Longrightarrow> terminated_spec code"

text \<open>
  The parser gives every \<open>if\<close> and every loop a body with at least one statement;
  an \<open>else\<close> branch that is absent is the empty list.
\<close>

fun nonempty_bodies :: "stmt \<Rightarrow> bool" where
  "nonempty_bodies (Stmt src t (IfStmt test body orelse)) =
     (body \<noteq> [] \<and> (\<forall>s \<in> set body. nonempty_bodies s) \<and> (\<forall>s \<in> set orelse. nonempty_bodies s))"
| "nonempty_bodies (Stmt src t (For v ty iter body)) =
     (body \<noteq> [] \<and> (\<forall>s \<in> set body. nonempty_bodies s))"
| "nonempty_bodies _ = True"

subsection \<open>The dispatcher and the bodies\<close>

text \<open>The name of the method \<open>Stmt.__init__\<close> looks up: \<open>parse_\<close> and the node's class.\<close>

fun fn_name :: "stmt_node \<Rightarrow> string" where
  "fn_name (ExprStmt _) = ''parse_Expr''"
| "fn_name Pass = ''parse_Pass''"
| "fn_name (NameStmt _) = ''parse_Name''"
| "fn_name (AnnAssign _ _ _) = ''parse_AnnAssign''"
| "fn_name (Assign _ _) = ''parse_Assign''"
| "fn_name (IfStmt _ _ _) = ''parse_If''"
| "fn_name (Log _ _ _) = ''parse_Log''"
| "fn_name (Assert _ _) = ''parse_Assert''"
| "fn_name (Raise _) = ''parse_Raise''"
| "fn_name (For _ _ _ _) = ''parse_For''"
| "fn_name (AugAssign _ _ _) = ''parse_AugAssign''"
| "fn_name Continue = ''parse_Continue''"
| "fn_name Break = ''parse_Break''"
| "fn_name (Return _) = ''parse_Return''"

definition asN :: "('c, irnode) lowering \<Rightarrow> ('c, irarg) lowering" where
  "asN m = bindL m (\<lambda>n. returnL (N n))"

text \<open>
  What \<open>Stmt.__init__\<close> does around the method: the internal memory scope is left,
  a fault is tagged with the statement and the method's name, a result that is not an
  IRnode fails the assertion, and the node is annotated with the statement's source
  text. (The back-reference \<open>ast_source\<close> is not kept in the model.)
\<close>

definition Stmt_finish :: "'c env \<Rightarrow> stmt \<Rightarrow> (error + irarg) \<times> 'c Context \<Rightarrow> (error + irnode) \<times> 'c Context" where
  "Stmt_finish env st res =
     (case res of (r, ctx') \<Rightarrow>
        ((case r of
            Inl e \<Rightarrow> Inl (tag_exceptions env st (fn_name (node st)) e)
          | Inr (N n) \<Rightarrow> Inr (set_annotation (node_source_code st) n)
          | Inr _ \<Rightarrow> Inl (tag_exceptions env st (fn_name (node st)) AssertionError)),
         leave (internal_memory_scope env) ctx'))"

text \<open>
  \<open>parse_stmt(vy_ast.Return(value=None), context)\<close>, the bare return that
  \<open>parse_body\<close> appends: a node made on the spot, without source text.
\<close>

definition bare_return :: stmt where
  "bare_return = Stmt None True (Return None)"

definition implicit_return :: "'c env \<Rightarrow> ('c, irnode) lowering" where
  "implicit_return env = (\<lambda>ctx.
     Stmt_finish env bare_return
       (asN (parse_Return env bare_return None) (enter (internal_memory_scope env) ctx)))"

text \<open>\<open>self.stmt.get("iter.func.id") == "range"\<close>.\<close>

fun is_range_call :: "vy_expr \<Rightarrow> bool" where
  "is_range_call (Call (Name f) _ _) = (f = ''range'')"
| "is_range_call _ = False"

text \<open>
  \<open>parse_stmt\<close> (that is \<open>Stmt.__init__\<close> with the method it dispatches
  to), the methods that lower a body (\<open>parse_If\<close>, \<open>_parse_For_range\<close>,
  \<open>_parse_For_list\<close>; \<open>parse_For\<close> is the \<open>For\<close> case of the
  dispatch), the loop of \<open>parse_body\<close> over the statements
  (\<open>parse_stmts\<close>) and \<open>parse_body\<close>. A method's result is the Python
  object it returns, so a node \<open>n\<close> is \<open>N n\<close>.
\<close>

lemma size_stmt_node: "size st = Suc (size (node st))"
  by (cases st) simp

function (sequential) parse_stmt :: "'c env \<Rightarrow> stmt \<Rightarrow> 'c Context \<Rightarrow> (error + irnode) \<times> 'c Context"
and parse_If :: "'c env \<Rightarrow> vy_expr \<Rightarrow> stmt list \<Rightarrow> stmt list \<Rightarrow> 'c Context \<Rightarrow> (error + irarg) \<times> 'c Context"
and parse_For_range :: "'c env \<Rightarrow> string \<Rightarrow> vtype option \<Rightarrow> vy_expr \<Rightarrow> stmt list \<Rightarrow> 'c Context \<Rightarrow> (error + irarg) \<times> 'c Context"
and parse_For_list :: "'c env \<Rightarrow> string \<Rightarrow> vtype option \<Rightarrow> vy_expr \<Rightarrow> stmt list \<Rightarrow> 'c Context \<Rightarrow> (error + irarg) \<times> 'c Context"
and parse_stmts :: "'c env \<Rightarrow> stmt list \<Rightarrow> irarg list \<Rightarrow> 'c Context \<Rightarrow> (error + irarg list) \<times> 'c Context"
and parse_body :: "'c env \<Rightarrow> stmt list \<Rightarrow> bool \<Rightarrow> 'c Context \<Rightarrow> (error + irnode) \<times> 'c Context"
where
  "parse_stmt env st ctx =
     Stmt_finish env st
       (case node st of
          ExprStmt v \<Rightarrow> asN (parse_Expr env v) (enter (internal_memory_scope env) ctx)
        | Pass \<Rightarrow> asN parse_Pass (enter (internal_memory_scope env) ctx)
        | NameStmt x \<Rightarrow> asN (parse_Name x) (enter (internal_memory_scope env) ctx)
        | AnnAssign x ty v \<Rightarrow> asN (parse_AnnAssign env x ty v) (enter (internal_memory_scope env) ctx)
        | Assign target v \<Rightarrow> asN (parse_Assign env target v) (enter (internal_memory_scope env) ctx)
        | IfStmt test body orelse \<Rightarrow>
            parse_If env test body orelse (enter (internal_memory_scope env) ctx)
        | Log ev args kws \<Rightarrow> asN (parse_Log env st ev args kws) (enter (internal_memory_scope env) ctx)
        | Assert test msg \<Rightarrow> asN (parse_Assert env test msg) (enter (internal_memory_scope env) ctx)
        | Raise exc \<Rightarrow> asN (parse_Raise env exc) (enter (internal_memory_scope env) ctx)
        | For varname target_type iter body \<Rightarrow>
            (case (if is_range_call iter
                   then parse_For_range env varname target_type iter body
                          (enter (block_scope env) (enter (internal_memory_scope env) ctx))
                   else parse_For_list env varname target_type iter body
                          (enter (block_scope env) (enter (internal_memory_scope env) ctx))) of
               (r, c1) \<Rightarrow> (r, leave (block_scope env) c1))
        | AugAssign target op v \<Rightarrow> parse_AugAssign env target op v (enter (internal_memory_scope env) ctx)
        | Continue \<Rightarrow> asN parse_Continue (enter (internal_memory_scope env) ctx)
        | Break \<Rightarrow> asN parse_Break (enter (internal_memory_scope env) ctx)
        | Return v \<Rightarrow> asN (parse_Return env st v) (enter (internal_memory_scope env) ctx))"
| "parse_If env test body orelse ctx =
     (case (case parse_value_expr env test (enter (block_scope env) ctx) of
              (Inl e, c1) \<Rightarrow> (Inl e, leave (block_scope env) c1)
            | (Inr test_expr, c1) \<Rightarrow>
                (case parse_body env body False c1 of
                   (Inl e, c2) \<Rightarrow> (Inl e, leave (block_scope env) c2)
                 | (Inr body_ir, c2) \<Rightarrow> (Inr [N test_expr, N body_ir], leave (block_scope env) c2))) of
        (Inl e, c3) \<Rightarrow> (Inl e, c3)
      | (Inr if_args, c3) \<Rightarrow>
          if orelse \<noteq> []
          then (case parse_body env orelse False (enter (block_scope env) c3) of
                  (Inl e, c4) \<Rightarrow> (Inl e, leave (block_scope env) c4)
                | (Inr else_ir, c4) \<Rightarrow>
                    (Inr (N (from_list (L ''if'' (if_args @ [N else_ir])) None None None)),
                     leave (block_scope env) c4))
          else (Inr (N (from_list (L ''if'' if_args) None None None)), c3))"
| "parse_For_range env varname target_type range_call body ctx =
     (case range_call of
        Call _ args keywords \<Rightarrow>
          (case for_range_setup env varname target_type args keywords ctx of
             (Inl e, c1) \<Rightarrow> (Inl e, c1)
           | (Inr hdr, c1) \<Rightarrow>
               (case parse_body env body False c1 of
                  (Inl e, c2) \<Rightarrow> (Inl e, c2)
                | (Inr body_ir, c2) \<Rightarrow> for_range_finish varname hdr body_ir c2))
      | _ \<Rightarrow> (Inl AssertionError, ctx))"
| "parse_For_list env varname target_type iter body ctx =
     (case for_list_setup env varname target_type iter ctx of
        (Inl e, c1) \<Rightarrow> (Inl e, c1)
      | (Inr hdr, c1) \<Rightarrow>
          (case parse_body env body False c1 of
             (Inl e, c2) \<Rightarrow> (Inl e, c2)
           | (Inr body_ir, c2) \<Rightarrow> for_list_finish env varname hdr body_ir c2))"
| "parse_stmts env [] ir_node ctx = (Inr ir_node, ctx)"
| "parse_stmts env (st # rest) ir_node ctx =
     (case parse_stmt env st ctx of
        (Inl e, c1) \<Rightarrow> (Inl e, c1)
      | (Inr ir, c1) \<Rightarrow> parse_stmts env rest (ir_node @ [N ir]) c1)"
| "parse_body env code ensure_terminated ctx =
     (case parse_stmts env code [] ctx of
        (Inl e, c1) \<Rightarrow> (Inl e, c1)
      | (Inr ir_node, c1) \<Rightarrow>
          (case (if ensure_terminated \<and> return_type c1 = None
                 then bindE (is_terminated code) (\<lambda>t. Inr (\<not> t))
                 else Inr False) of
             Inl e \<Rightarrow> (Inl e, c1)
           | Inr True \<Rightarrow>
               (case implicit_return env c1 of
                  (Inl e, c2) \<Rightarrow> (Inl e, c2)
                | (Inr r, c2) \<Rightarrow>
                    (Inr (from_list (L ''seq'' (ir_node @ [N r] @ [S ''pass''])) None None None), c2))
           | Inr False \<Rightarrow>
               (Inr (from_list (L ''seq'' (ir_node @ [S ''pass''])) None None None), c1)))"
  by pat_completeness auto

termination
  apply (relation "measure (\<lambda>x. case x of
       Inl (Inl (env, st, ctx)) \<Rightarrow> 2 * size st
     | Inl (Inr (Inl (env, t, b, orelse, ctx))) \<Rightarrow> 2 * (size_list size b + size_list size orelse) + 3
     | Inl (Inr (Inr (env, v, tt, rc, body, ctx))) \<Rightarrow> 2 * size_list size body + 3
     | Inr (Inl (env, v, tt, it, body, ctx)) \<Rightarrow> 2 * size_list size body + 3
     | Inr (Inr (Inl (env, code, acc, ctx))) \<Rightarrow> 2 * size_list size code + 1
     | Inr (Inr (Inr (env, code, et, ctx))) \<Rightarrow> 2 * size_list size code + 2)")
  subgoal by simp
  subgoal for env st using size_stmt_node [of st] by simp
  subgoal for env st using size_stmt_node [of st] by simp
  subgoal for env st using size_stmt_node [of st] by simp
  subgoal by simp
  subgoal by simp
  subgoal by simp
  subgoal by simp
  subgoal by simp
  subgoal by simp
  subgoal by simp
  done

declare parse_stmt.simps [simp del] parse_If.simps [simp del] parse_For_range.simps [simp del]
  parse_For_list.simps [simp del] parse_body.simps [simp del]

section \<open>A concrete instance of the collaborators\<close>

text \<open>
  A small instance of \<open>env\<close> on which the model is evaluated at concrete
  statements. The Context's remaining state is a counter that every allocation and
  every lowered expression advances. Variables: \<open>a\<close> is a dynamic array and
  \<open>b\<close> a fixed array of four words, \<open>mat\<close> an array of arrays, \<open>k\<close> a
  signed integer, \<open>m\<close> and \<open>i\<close> live in memory, every other name is an
  unsigned word in storage. A list literal is a fixed array that is not a location,
  a call of \<open>dyn\<close> returns a dynamic array that is not a location. Two
  subtrees could overlap when they reference a common variable. Lowering the name
  \<open>boom\<close> raises. Of Keccak-256 only the digest of the bytes of
  \<open>Error(string)\<close> is given, which begins 08 c3 79 a0.
\<close>

definition ex_typ :: "string \<Rightarrow> vtype" where
  "ex_typ x =
     (if x = ''a'' then DArrayT UINT256_T 4
      else if x = ''b'' then SArrayT UINT256_T 4
      else if x = ''mat'' then SArrayT (SArrayT UINT256_T 2) 2
      else if x = ''k'' then IntegerT True 256
      else UINT256_T)"

definition ex_loc :: "string \<Rightarrow> location" where
  "ex_loc x = (if x = ''m'' \<or> x = ''i'' then MEMORY else STORAGE)"

definition ex_node :: "irval \<Rightarrow> irnode list \<Rightarrow> vtype option \<Rightarrow> location option \<Rightarrow> irnode" where
  "ex_node v as t l = IRnode v as \<lparr>m_typ = t, m_location = l, m_error_msg = None, m_annotation = None\<rparr>"

fun ex_lower :: "vy_expr \<Rightarrow> irnode" where
  "ex_lower (Name x) = ex_node (IStr x) [] (Some (ex_typ x)) (Some (ex_loc x))"
| "ex_lower (IntLit k) = ex_node (IInt k) [] (Some UINT256_T) None"
| "ex_lower (StrLit s) = ex_node (IStr s) [] (Some (StringT (length s))) None"
| "ex_lower (Subscript a i) =
     ex_node (IStr ''elem'') [ex_lower a, ex_lower i]
       (case ir_typ (ex_lower a) of
          Some t \<Rightarrow> (case value_type t of Inr vt \<Rightarrow> Some vt | Inl _ \<Rightarrow> None)
        | None \<Rightarrow> None)
       (ir_location (ex_lower a))"
| "ex_lower (Call f args kws) =
     ex_node (IStr ''call'') (ex_lower f # map ex_lower args)
       (Some (if f = Name ''dyn'' then DArrayT UINT256_T 4 else UINT256_T)) None"
| "ex_lower (ListLit es) =
     ex_node (IStr ''multi'') (map ex_lower es) (Some (SArrayT UINT256_T (length es))) None"
| "ex_lower (Tuple es) = ex_node (IStr ''multi'') (map ex_lower es) None None"
| "ex_lower (OtherExpr k) = ex_node (IStr ''other'') [] None None"

definition ex_Expr :: "vy_expr \<Rightarrow> (nat, irnode) lowering" where
  "ex_Expr e = (\<lambda>ctx.
     if e = Name ''boom'' then (Inl (OtherFault ''boom''), ctx\<lparr>internals := Suc (internals ctx)\<rparr>)
     else (Inr (ex_lower e), ctx\<lparr>internals := Suc (internals ctx)\<rparr>))"

fun ex_prim :: "vtype \<Rightarrow> bool" where
  "ex_prim (IntegerT _ _) = True"
| "ex_prim BoolT = True"
| "ex_prim AddressT = True"
| "ex_prim _ = False"

fun ex_memory_bytes :: "vtype \<Rightarrow> nat" where
  "ex_memory_bytes (BytesT n) = 32 + 32 * ((n + 31) div 32)"
| "ex_memory_bytes (StringT n) = 32 + 32 * ((n + 31) div 32)"
| "ex_memory_bytes (SArrayT t n) = n * ex_memory_bytes t"
| "ex_memory_bytes (DArrayT t n) = 32 + n * ex_memory_bytes t"
| "ex_memory_bytes (TupleT ts) = sum_list (map ex_memory_bytes ts)"
| "ex_memory_bytes _ = 32"

fun ex_refs :: "irnode \<Rightarrow> varinfo list" where
  "ex_refs (IRnode v as m) =
     (if as = []
      then (case (v, m_typ m, m_location m) of
              (IStr x, Some t, Some l) \<Rightarrow> [\<lparr>var_name = x, var_typ = t, var_is_state = (l = STORAGE)\<rparr>]
            | _ \<Rightarrow> [])
      else concat (map ex_refs as))"

text \<open>A call of \<open>set_a\<close> writes \<open>a\<close>, a call of \<open>set_x\<close> writes \<open>x\<close>; a call of \<open>view\<close> mutates nothing.\<close>

definition ex_callee :: "irnode \<Rightarrow> string option" where
  "ex_callee n =
     (if ir_value n = IStr ''call''
      then (case ir_args n of
              c # _ \<Rightarrow> (case ir_value c of IStr f \<Rightarrow> Some f | IInt _ \<Rightarrow> None)
            | [] \<Rightarrow> None)
      else None)"

definition ex_writes :: "irnode \<Rightarrow> varinfo list" where
  "ex_writes n =
     (if ex_callee n = Some ''set_a'' then [\<lparr>var_name = ''a'', var_typ = ex_typ ''a'', var_is_state = True\<rparr>]
      else if ex_callee n = Some ''set_x'' then [\<lparr>var_name = ''x'', var_typ = ex_typ ''x'', var_is_state = True\<rparr>]
      else [])"

definition ex_env :: "nat env" where
  "ex_env = \<lparr>
     Expr_ir = (\<lambda>e is_stmt. ex_Expr e),
     parse_value_expr = ex_Expr,
     parse_pointer_expr = ex_Expr,
     handle_binop = (\<lambda>op l r. returnL (from_list (L ''binop'' [N l, N r]) (ir_typ l) None None)),
     new_variable = (\<lambda>x t ctx. (Inr (ex_node (IStr x) [] (Some t) (Some MEMORY)),
                                  ctx\<lparr>internals := Suc (internals ctx)\<rparr>)),
     new_internal_variable = (\<lambda>t ctx. (Inr (ex_node (IInt (int (internals ctx))) [] t (Some MEMORY)),
                                        ctx\<lparr>internals := Suc (internals ctx)\<rparr>)),
     fresh_varname = (\<lambda>pfx ctx. (Inr (pfx @ replicate (internals ctx) CHR ''_''),
                                  ctx\<lparr>internals := Suc (internals ctx)\<rparr>)),
     block_scope = \<lparr>enter = id, leave = id\<rparr>,
     range_scope = \<lparr>enter = id, leave = id\<rparr>,
     internal_memory_scope = \<lparr>enter = id, leave = id\<rparr>,
     writeable = (\<lambda>ctx n. ir_location n \<noteq> None \<and> ir_location n \<noteq> Some CALLDATA),
     make_setter = (\<lambda>l r. Inr (from_list (L ''set'' [N l, N r]) None None None)),
     could_overlap = (\<lambda>l r. list_ex (\<lambda>v. v \<in> set (ex_refs r)) (ex_refs l)),
     LOAD = (\<lambda>p. if is_pointer p then Inr (L ''load'' [N p]) else Inl (CompilerPanic ''cannot dereference'')),
     STORE = (\<lambda>p v. if is_pointer p then Inr (L ''store'' [N p, N v]) else Inl (CompilerPanic ''cannot dereference'')),
     add_ofst = (\<lambda>p k. from_list (L ''add'' [N p, I k]) (ir_typ p) (ir_location p) None),
     clamp_le = (\<lambda>x hi sg. Inr (from_list (L ''seq'' [L ''assert'' [L (if sg then ''sle'' else ''le'') [N x, N hi]], N x])
                                    (ir_typ x) None None)),
     get_dyn_array_count = (\<lambda>p. Inr (from_list (L ''load'' [N p]) (Some UINT256_T) None None)),
     get_element_ptr = (\<lambda>p ix chk. Inr (from_list (L ''elem'' [N p, N ix]) None (ir_location p) None)),
     get_type_for_exact_size = BytesT,
     wrap_value_for_external_return = (\<lambda>n. Inr n),
     abi_encode = (\<lambda>dst v bufsz returns_len. returnL (from_list (L ''abi_encode'' [N dst, N v, I (int bufsz)])
                                                      (Some UINT256_T) None None)),
     make_return_stmt = (\<lambda>v st. returnL (from_list (L ''exit_to'' (case v of None \<Rightarrow> [] | Some n \<Rightarrow> [N n]))
                                           None None None)),
     ir_node_for_log = (\<lambda>st ev topics data. returnL (from_list (L ''log'' (map N (topics @ data))) None None None)),
     tag_exceptions = (\<lambda>st note e. e),
     is_prim_word = ex_prim,
     memory_bytes_required = ex_memory_bytes,
     referenced_variables = ex_refs,
     variable_writes = ex_writes,
     contains_writeable_call = (\<lambda>n. case ex_callee n of None \<Rightarrow> False | Some f \<Rightarrow> f \<noteq> ''view''),
     is_complex_ir = (\<lambda>n. ir_args n \<noteq> []),
     keccak256 = (\<lambda>bs. if bs = map of_char ''Error(string)''
                       then [8, 195, 121, 160] @ replicate 28 0 else replicate 32 0)
   \<rparr>"

definition ex_ctx :: "nat Context" where
  "ex_ctx = \<lparr>constancy = Mutable, forvars = Map.empty, return_type = None, internals = 0\<rparr>"

section \<open>Properties\<close>

subsection \<open>The lowering monad\<close>

lemma bindL_Inl: "m ctx = (Inl e, c) \<Longrightarrow> bindL m f ctx = (Inl e, c)"
  by (simp add: bindL_def)

text \<open>The definitions unfolded when the model is evaluated at a concrete input.\<close>

lemmas ex_defs =
  ex_env_def ex_ctx_def ex_Expr_def ex_node_def ex_typ_def ex_loc_def ex_callee_def ex_writes_def

lemmas model_defs =
  bindL_def liftE_def returnL_def raiseL_def bindE_def cache_when_complex_def resolve_def
  ir_typ_def ir_location_def is_pointer_def UINT256_T_def Let_def

lemmas stmt_defs =
  parse_stmt.simps parse_If.simps parse_body.simps Stmt_finish_def asN_def implicit_return_def
  bare_return_def parse_Pass_def parse_Return_def set_annotation_def is_terminated.simps


subsection \<open>Loop variables are not assignment targets\<close>

lemma get_target_forvar:
  "forvars ctx x \<noteq> None \<Longrightarrow>
     get_target env (Name x) ctx = (Inl (TypeCheckFailure ''Failed constancy check''), ctx)"
  by (simp add: get_target_def)

text \<open>
  C10. A bare name that is registered in \<open>forvars\<close> is refused by
  \<open>_get_target\<close> at its first check, with a TypeCheckFailure and with the
  Context untouched: no collaborator is called and no IR is built for the target.
  \<open>parse_AugAssign\<close> resolves its target first, so it fails in the same way.
  \<open>parse_Assign\<close> lowers the right-hand side first; whatever that lowering
  gives, with the name registered when the target is resolved the statement yields no
  IR: the fault of the right-hand side if it raised, the TypeCheckFailure otherwise.
\<close>

theorem loop_variable_not_assignable:
  assumes "forvars ctx x \<noteq> None"
  shows "get_target env (Name x) ctx = (Inl (TypeCheckFailure ''Failed constancy check''), ctx)
       \<and> parse_AugAssign env (Name x) op val ctx
           = (Inl (TypeCheckFailure ''Failed constancy check''), ctx)
       \<and> (\<forall>ctx0 r. Expr_ir env val False ctx0 = (r, ctx) \<longrightarrow>
             parse_Assign env (Name x) val ctx0
               = ((case r of Inl e \<Rightarrow> Inl e
                           | Inr src \<Rightarrow> Inl (TypeCheckFailure ''Failed constancy check'')), ctx))"
proof -
  have t: "get_target env (Name x) ctx = (Inl (TypeCheckFailure ''Failed constancy check''), ctx)"
    using assms by (rule get_target_forvar)
  have a: "parse_AugAssign env (Name x) op val ctx
             = (Inl (TypeCheckFailure ''Failed constancy check''), ctx)"
    unfolding parse_AugAssign_def by (rule bindL_Inl) (rule t)
  have p: "parse_Assign env (Name x) val ctx0
             = ((case r of Inl e \<Rightarrow> Inl e
                         | Inr src \<Rightarrow> Inl (TypeCheckFailure ''Failed constancy check'')), ctx)"
    if "Expr_ir env val False ctx0 = (r, ctx)" for ctx0 r
  proof (cases r)
    case (Inl e)
    with that show ?thesis by (simp add: parse_Assign_def bindL_def)
  next
    case (Inr src)
    with that t show ?thesis by (simp add: parse_Assign_def bindL_def)
  qed
  from t a p show ?thesis by blast
qed

text \<open>
  The theorem with \<open>i\<close> registered as a loop variable, at \<open>i += 1\<close> and at
  \<open>i = 1\<close>.
\<close>

theorem loop_variable_not_assignable_witness:
  "parse_AugAssign ex_env (Name ''i'') Add (IntLit 1) (ex_ctx\<lparr>forvars := [''i'' \<mapsto> True]\<rparr>)
     = (Inl (TypeCheckFailure ''Failed constancy check''), ex_ctx\<lparr>forvars := [''i'' \<mapsto> True]\<rparr>)
   \<and> parse_Assign ex_env (Name ''i'') (IntLit 1) (ex_ctx\<lparr>forvars := [''i'' \<mapsto> True]\<rparr>)
     = (Inl (TypeCheckFailure ''Failed constancy check''),
        ex_ctx\<lparr>forvars := [''i'' \<mapsto> True], internals := 1\<rparr>)"
proof -
  have f0: "forvars (ex_ctx\<lparr>forvars := [''i'' \<mapsto> True]\<rparr>) ''i'' \<noteq> None"
    by simp
  have f1: "forvars (ex_ctx\<lparr>forvars := [''i'' \<mapsto> True], internals := 1\<rparr>) ''i'' \<noteq> None"
    by simp
  have e: "Expr_ir ex_env (IntLit 1) False (ex_ctx\<lparr>forvars := [''i'' \<mapsto> True]\<rparr>)
             = (Inr (ex_lower (IntLit 1)), ex_ctx\<lparr>forvars := [''i'' \<mapsto> True], internals := 1\<rparr>)"
    by (simp add: ex_defs)
  from loop_variable_not_assignable [OF f0, of ex_env Add "IntLit 1"]
  have a: "parse_AugAssign ex_env (Name ''i'') Add (IntLit 1) (ex_ctx\<lparr>forvars := [''i'' \<mapsto> True]\<rparr>)
     = (Inl (TypeCheckFailure ''Failed constancy check''), ex_ctx\<lparr>forvars := [''i'' \<mapsto> True]\<rparr>)"
    by blast
  from loop_variable_not_assignable [OF f1, of ex_env Add "IntLit 1"] e
  have b: "parse_Assign ex_env (Name ''i'') (IntLit 1) (ex_ctx\<lparr>forvars := [''i'' \<mapsto> True]\<rparr>)
     = (Inl (TypeCheckFailure ''Failed constancy check''),
        ex_ctx\<lparr>forvars := [''i'' \<mapsto> True], internals := 1\<rparr>)"
    by fastforce
  from a b show ?thesis by simp
qed

subsection \<open>Augmented assignment: the aliasing check\<close>

text \<open>The loop over the referenced variables raises exactly when one of them trips the test.\<close>

lemma check_referenced_iff:
  "check_referenced env right vars =
     (if list_ex (\<lambda>var. \<not> is_prim_word env (var_typ var)
                        \<and> (var \<in> set (variable_writes env right)
                           \<or> (var_is_state var \<and> contains_writeable_call env right))) vars
      then Inl (CodegenPanic ''unreachable'') else Inr ())"
  by (induction vars) auto

text \<open>
  C1, as amended. Let the target resolve to a single-word location and the right-hand
  side lower to \<open>right\<close>. The check of \<open>parse_AugAssign\<close> skips every
  referenced variable whose own type is a single word. Lowering fails with the
  CodegenPanic when some other variable referenced by the target (state variable or
  not) is written by the right-hand side, or is a state variable while the right-hand
  side contains a writeable call. When no referenced variable trips the check and
  \<open>LOAD\<close>, the binary operation and \<open>STORE\<close> return, the result is the store
  of \<open>op (load target) right\<close> to the same target, both on the cached location,
  wrapped by the builder of the cache.
\<close>

theorem augassign_check:
  assumes tgt: "get_target env target_e ctx = (Inr target0, c1)"
      and rhs: "parse_value_expr env val c1 = (Inr right, c2)"
      and ty: "ir_typ target0 = Some ty" "is_prim_word env ty"
      and cache: "cache_when_complex env target0 ''_loc'' = (b, target)"
  shows "((\<exists>var \<in> set (referenced_variables env target0).
             \<not> is_prim_word env (var_typ var)
             \<and> (var \<in> set (variable_writes env right)
                \<or> (var_is_state var \<and> contains_writeable_call env right))) \<longrightarrow>
            parse_AugAssign env target_e op val ctx = (Inl (CodegenPanic ''unreachable''), c2))
       \<and> (\<not> (\<exists>var \<in> set (referenced_variables env target0).
             \<not> is_prim_word env (var_typ var)
             \<and> (var \<in> set (variable_writes env right)
                \<or> (var_is_state var \<and> contains_writeable_call env right))) \<longrightarrow>
            (\<forall>ld new_val c3 st.
               LOAD env target = Inr ld \<longrightarrow>
               handle_binop env op (from_list ld (ir_typ target) None None) right c2 = (Inr new_val, c3) \<longrightarrow>
               STORE env target new_val = Inr st \<longrightarrow>
               parse_AugAssign env target_e op val ctx = (Inr (resolve b st), c3)))"
  using tgt rhs ty cache
  by (auto simp add: parse_AugAssign_def bindL_def liftE_def returnL_def raiseL_def
        check_referenced_iff list_ex_iff)

text \<open>
  The theorem at \<open>a[1] += set_a()\<close>, where \<open>a\<close> is a dynamic array in
  storage that the call writes (refused), and at \<open>a[1] += 2\<close> (the store through
  the cached location \<open>_loc\<close>).
\<close>

theorem augassign_check_witness:
  "parse_AugAssign ex_env (Subscript (Name ''a'') (IntLit 1)) Add (Call (Name ''set_a'') [] []) ex_ctx
     = (Inl (CodegenPanic ''unreachable''), ex_ctx\<lparr>internals := 2\<rparr>)
   \<and> parse_AugAssign ex_env (Subscript (Name ''a'') (IntLit 1)) Add (IntLit 2) ex_ctx
     = (Inr (resolve (fst (cache_when_complex ex_env (ex_lower (Subscript (Name ''a'') (IntLit 1))) ''_loc''))
               (L ''store''
                 [N (from_list (S ''_loc'') (Some UINT256_T) (Some STORAGE) None),
                  N (from_list
                       (L ''binop''
                          [N (from_list (L ''load'' [N (from_list (S ''_loc'') (Some UINT256_T) (Some STORAGE) None)])
                                (Some UINT256_T) None None),
                           N (ex_lower (IntLit 2))])
                       (Some UINT256_T) None None)])),
        ex_ctx\<lparr>internals := 2\<rparr>)"
proof -
  let ?T = "ex_lower (Subscript (Name ''a'') (IntLit 1))"
  let ?loc = "from_list (S ''_loc'') (Some UINT256_T) (Some STORAGE) None"
  let ?b = "fst (cache_when_complex ex_env ?T ''_loc'')"
  have t: "get_target ex_env (Subscript (Name ''a'') (IntLit 1)) ex_ctx = (Inr ?T, ex_ctx\<lparr>internals := 1\<rparr>)"
    by (simp add: get_target_def ex_defs model_defs)
  have r1: "parse_value_expr ex_env (Call (Name ''set_a'') [] []) (ex_ctx\<lparr>internals := 1\<rparr>)
              = (Inr (ex_lower (Call (Name ''set_a'') [] [])), ex_ctx\<lparr>internals := 2\<rparr>)"
    by (simp add: ex_defs)
  have r2: "parse_value_expr ex_env (IntLit 2) (ex_ctx\<lparr>internals := 1\<rparr>)
              = (Inr (ex_lower (IntLit 2)), ex_ctx\<lparr>internals := 2\<rparr>)"
    by (simp add: ex_defs)
  have ty: "ir_typ ?T = Some UINT256_T" "is_prim_word ex_env UINT256_T"
    by (simp_all add: ex_defs model_defs)
  have c: "cache_when_complex ex_env ?T ''_loc'' = (?b, ?loc)"
    by (simp add: ex_defs model_defs)
  have conflict: "\<exists>var \<in> set (referenced_variables ex_env ?T).
             \<not> is_prim_word ex_env (var_typ var)
             \<and> (var \<in> set (variable_writes ex_env (ex_lower (Call (Name ''set_a'') [] [])))
                \<or> (var_is_state var \<and> contains_writeable_call ex_env (ex_lower (Call (Name ''set_a'') [] []))))"
    by (simp add: ex_defs model_defs)
  have quiet: "\<not> (\<exists>var \<in> set (referenced_variables ex_env ?T).
             \<not> is_prim_word ex_env (var_typ var)
             \<and> (var \<in> set (variable_writes ex_env (ex_lower (IntLit 2)))
                \<or> (var_is_state var \<and> contains_writeable_call ex_env (ex_lower (IntLit 2)))))"
    by (simp add: ex_defs model_defs)
  have ld: "LOAD ex_env ?loc = Inr (L ''load'' [N ?loc])"
    by (simp add: ex_defs model_defs)
  have bo: "handle_binop ex_env Add (from_list (L ''load'' [N ?loc]) (ir_typ ?loc) None None) (ex_lower (IntLit 2))
              (ex_ctx\<lparr>internals := 2\<rparr>)
            = (Inr (from_list (L ''binop'' [N (from_list (L ''load'' [N ?loc]) (Some UINT256_T) None None),
                                           N (ex_lower (IntLit 2))]) (Some UINT256_T) None None),
               ex_ctx\<lparr>internals := 2\<rparr>)"
    by (simp add: ex_defs model_defs)
  have st: "STORE ex_env ?loc
              (from_list (L ''binop'' [N (from_list (L ''load'' [N ?loc]) (Some UINT256_T) None None),
                                      N (ex_lower (IntLit 2))]) (Some UINT256_T) None None)
            = Inr (L ''store'' [N ?loc,
                    N (from_list (L ''binop'' [N (from_list (L ''load'' [N ?loc]) (Some UINT256_T) None None),
                                              N (ex_lower (IntLit 2))]) (Some UINT256_T) None None)])"
    by (simp add: ex_defs model_defs)
  from augassign_check [OF t r1 ty c, of Add] conflict
  have p1: "parse_AugAssign ex_env (Subscript (Name ''a'') (IntLit 1)) Add (Call (Name ''set_a'') [] []) ex_ctx
              = (Inl (CodegenPanic ''unreachable''), ex_ctx\<lparr>internals := 2\<rparr>)"
    by blast
  from augassign_check [OF t r2 ty c, of Add] quiet ld bo st
  have p2: "parse_AugAssign ex_env (Subscript (Name ''a'') (IntLit 1)) Add (IntLit 2) ex_ctx
              = (Inr (resolve ?b (L ''store'' [N ?loc,
                    N (from_list (L ''binop'' [N (from_list (L ''load'' [N ?loc]) (Some UINT256_T) None None),
                                              N (ex_lower (IntLit 2))]) (Some UINT256_T) None None)])),
                 ex_ctx\<lparr>internals := 2\<rparr>)"
    by blast
  from p1 p2 show ?thesis by simp
qed

text \<open>
  The claim as stated fails on a target that is itself a single word: in
  \<open>x += set_x()\<close> the state variable \<open>x\<close> is referenced by the target and
  written by the right-hand side, and the statement is lowered to a store.
\<close>

theorem augassign_prim_word_counterexample:
  "\<lparr>var_name = ''x'', var_typ = UINT256_T, var_is_state = True\<rparr>
      \<in> set (referenced_variables ex_env (ex_lower (Name ''x'')))
   \<and> \<lparr>var_name = ''x'', var_typ = UINT256_T, var_is_state = True\<rparr>
      \<in> set (variable_writes ex_env (ex_lower (Call (Name ''set_x'') [] [])))
   \<and> get_target ex_env (Name ''x'') ex_ctx = (Inr (ex_lower (Name ''x'')), ex_ctx\<lparr>internals := 1\<rparr>)
   \<and> parse_value_expr ex_env (Call (Name ''set_x'') [] []) (ex_ctx\<lparr>internals := 1\<rparr>)
        = (Inr (ex_lower (Call (Name ''set_x'') [] [])), ex_ctx\<lparr>internals := 2\<rparr>)
   \<and> parse_AugAssign ex_env (Name ''x'') Add (Call (Name ''set_x'') [] []) ex_ctx
        = (Inr (L ''store''
                 [N (ex_lower (Name ''x'')),
                  N (from_list
                       (L ''binop''
                          [N (from_list (L ''load'' [N (ex_lower (Name ''x''))]) (Some UINT256_T) None None),
                           N (ex_lower (Call (Name ''set_x'') [] []))])
                       (Some UINT256_T) None None)]),
           ex_ctx\<lparr>internals := 2\<rparr>)"
  by (simp add: parse_AugAssign_def get_target_def ex_defs model_defs)

subsection \<open>Plain assignment: staging through a temporary\<close>

text \<open>
  C2. Let the right-hand side lower to \<open>src\<close> of type \<open>ty\<close> and the target
  resolve to \<open>dst\<close>. When \<open>ty\<close> spans several words (it is not a primitive
  word) and the two subtrees could overlap, a fresh internal variable of type
  \<open>ty\<close> is requested and the IR is the sequence of two copies: the right-hand
  value into the temporary, then the temporary into the target. When \<open>ty\<close> is
  a single word, or when no overlap is possible, the IR is the single copy of the
  right-hand value into the target, and the Context is the one left by resolving the
  target: no buffer is requested.
\<close>

theorem assign_staging:
  assumes src: "Expr_ir env val False ctx = (Inr src, c1)"
      and dst: "get_target env target c1 = (Inr dst, c2)"
      and ty: "ir_typ src = Some ty"
  shows "(\<not> is_prim_word env ty \<and> could_overlap env dst src \<longrightarrow>
            (\<forall>tmp c3 s1 s2.
               new_internal_variable env (Some ty) c2 = (Inr tmp, c3) \<longrightarrow>
               make_setter env tmp src = Inr s1 \<longrightarrow>
               make_setter env dst tmp = Inr s2 \<longrightarrow>
               parse_Assign env target val ctx
                 = (Inr (from_list (L ''seq'' [N s1, N s2]) None None None), c3)))
       \<and> (is_prim_word env ty \<or> \<not> could_overlap env dst src \<longrightarrow>
            (\<forall>s2. make_setter env dst src = Inr s2 \<longrightarrow>
               parse_Assign env target val ctx
                 = (Inr (from_list (L ''seq'' [N s2]) None None None), c2)))"
  using src dst ty
  by (auto simp add: parse_Assign_def potential_overlap_def bindL_def liftE_def returnL_def)

text \<open>
  The theorem at \<open>mat[x] = mat[y]\<close> on an array of arrays (overlap possible, the
  element spans two words: staged through the temporary at address 2), at
  \<open>x = x\<close> on a word (the two sides overlap, but a single word is copied
  directly) and at \<open>b = [1, 2, 3, 4]\<close> (four words, but a literal overlaps
  nothing: copied directly).
\<close>

theorem assign_staging_witness:
  "parse_Assign ex_env (Subscript (Name ''mat'') (Name ''x'')) (Subscript (Name ''mat'') (Name ''y'')) ex_ctx
     = (Inr (from_list
               (L ''seq''
                  [N (from_list (L ''set'' [N (ex_node (IInt 2) [] (Some (SArrayT UINT256_T 2)) (Some MEMORY)),
                                            N (ex_lower (Subscript (Name ''mat'') (Name ''y'')))]) None None None),
                   N (from_list (L ''set'' [N (ex_lower (Subscript (Name ''mat'') (Name ''x''))),
                                            N (ex_node (IInt 2) [] (Some (SArrayT UINT256_T 2)) (Some MEMORY))])
                        None None None)])
               None None None),
        ex_ctx\<lparr>internals := 3\<rparr>)
   \<and> parse_Assign ex_env (Name ''x'') (Name ''x'') ex_ctx
     = (Inr (from_list
               (L ''seq'' [N (from_list (L ''set'' [N (ex_lower (Name ''x'')), N (ex_lower (Name ''x''))])
                               None None None)])
               None None None),
        ex_ctx\<lparr>internals := 2\<rparr>)
   \<and> parse_Assign ex_env (Name ''b'') (ListLit [IntLit 1, IntLit 2, IntLit 3, IntLit 4]) ex_ctx
     = (Inr (from_list
               (L ''seq'' [N (from_list (L ''set'' [N (ex_lower (Name ''b'')),
                                                    N (ex_lower (ListLit [IntLit 1, IntLit 2, IntLit 3, IntLit 4]))])
                               None None None)])
               None None None),
        ex_ctx\<lparr>internals := 2\<rparr>)"
proof -
  let ?mx = "ex_lower (Subscript (Name ''mat'') (Name ''x''))"
  let ?my = "ex_lower (Subscript (Name ''mat'') (Name ''y''))"
  let ?tmp = "ex_node (IInt 2) [] (Some (SArrayT UINT256_T 2)) (Some MEMORY)"
  let ?x = "ex_lower (Name ''x'')"
  let ?b = "ex_lower (Name ''b'')"
  let ?lit = "ex_lower (ListLit [IntLit 1, IntLit 2, IntLit 3, IntLit 4])"
  have s1: "Expr_ir ex_env (Subscript (Name ''mat'') (Name ''y'')) False ex_ctx = (Inr ?my, ex_ctx\<lparr>internals := 1\<rparr>)"
    by (simp add: ex_defs)
  have d1: "get_target ex_env (Subscript (Name ''mat'') (Name ''x'')) (ex_ctx\<lparr>internals := 1\<rparr>)
              = (Inr ?mx, ex_ctx\<lparr>internals := 2\<rparr>)"
    by (simp add: get_target_def ex_defs model_defs)
  have t1: "ir_typ ?my = Some (SArrayT UINT256_T 2)"
    by (simp add: ex_defs model_defs)
  have o1: "\<not> is_prim_word ex_env (SArrayT UINT256_T 2) \<and> could_overlap ex_env ?mx ?my"
    by (simp add: ex_defs model_defs)
  have n1: "new_internal_variable ex_env (Some (SArrayT UINT256_T 2)) (ex_ctx\<lparr>internals := 2\<rparr>)
              = (Inr ?tmp, ex_ctx\<lparr>internals := 3\<rparr>)"
    by (simp add: ex_defs model_defs)
  have m1: "make_setter ex_env ?tmp ?my = Inr (from_list (L ''set'' [N ?tmp, N ?my]) None None None)"
    by (simp add: ex_defs)
  have m2: "make_setter ex_env ?mx ?tmp = Inr (from_list (L ''set'' [N ?mx, N ?tmp]) None None None)"
    by (simp add: ex_defs)
  from assign_staging [OF s1 d1 t1] o1 n1 m1 m2
  have p1: "parse_Assign ex_env (Subscript (Name ''mat'') (Name ''x'')) (Subscript (Name ''mat'') (Name ''y'')) ex_ctx
     = (Inr (from_list (L ''seq'' [N (from_list (L ''set'' [N ?tmp, N ?my]) None None None),
                                  N (from_list (L ''set'' [N ?mx, N ?tmp]) None None None)])
               None None None),
        ex_ctx\<lparr>internals := 3\<rparr>)"
    by blast
  have s2: "Expr_ir ex_env (Name ''x'') False ex_ctx = (Inr ?x, ex_ctx\<lparr>internals := 1\<rparr>)"
    by (simp add: ex_defs)
  have d2: "get_target ex_env (Name ''x'') (ex_ctx\<lparr>internals := 1\<rparr>) = (Inr ?x, ex_ctx\<lparr>internals := 2\<rparr>)"
    by (simp add: get_target_def ex_defs model_defs)
  have t2: "ir_typ ?x = Some UINT256_T"
    by (simp add: ex_defs model_defs)
  have o2: "is_prim_word ex_env UINT256_T \<and> could_overlap ex_env ?x ?x"
    by (simp add: ex_defs model_defs)
  have m3: "make_setter ex_env ?x ?x = Inr (from_list (L ''set'' [N ?x, N ?x]) None None None)"
    by (simp add: ex_defs)
  from assign_staging [OF s2 d2 t2] o2 m3
  have p2: "parse_Assign ex_env (Name ''x'') (Name ''x'') ex_ctx
     = (Inr (from_list (L ''seq'' [N (from_list (L ''set'' [N ?x, N ?x]) None None None)]) None None None),
        ex_ctx\<lparr>internals := 2\<rparr>)"
    by blast
  have s3: "Expr_ir ex_env (ListLit [IntLit 1, IntLit 2, IntLit 3, IntLit 4]) False ex_ctx = (Inr ?lit, ex_ctx\<lparr>internals := 1\<rparr>)"
    by (simp add: ex_defs)
  have d3: "get_target ex_env (Name ''b'') (ex_ctx\<lparr>internals := 1\<rparr>) = (Inr ?b, ex_ctx\<lparr>internals := 2\<rparr>)"
    by (simp add: get_target_def ex_defs model_defs)
  have t3: "ir_typ ?lit = Some (SArrayT UINT256_T 4)"
    by (simp add: ex_defs model_defs)
  have o3: "\<not> is_prim_word ex_env (SArrayT UINT256_T 4) \<and> \<not> could_overlap ex_env ?b ?lit"
    by (simp add: ex_defs model_defs)
  have m4: "make_setter ex_env ?b ?lit = Inr (from_list (L ''set'' [N ?b, N ?lit]) None None None)"
    by (simp add: ex_defs)
  from assign_staging [OF s3 d3 t3] o3 m4
  have p3: "parse_Assign ex_env (Name ''b'') (ListLit [IntLit 1, IntLit 2, IntLit 3, IntLit 4]) ex_ctx
     = (Inr (from_list (L ''seq'' [N (from_list (L ''set'' [N ?b, N ?lit]) None None None)]) None None None),
        ex_ctx\<lparr>internals := 2\<rparr>)"
    by blast
  from p1 p2 p3 show ?thesis by simp
qed

subsection \<open>Assert and raise with a reason\<close>

text \<open>
  C3. For a message other than the sentinel, once the message is lowered (under
  constancy Constant) and wrapped for external return with type \<open>ty\<close>: a
  temporary buffer of exactly \<open>64 + memory_bytes_required ty\<close> bytes is
  requested; the message is ABI-encoded at \<open>buf + 32\<close> with the remaining
  \<open>32 + memory_bytes_required ty\<close> bytes as budget, returning its length; the
  revert sequence stores at \<open>buf\<close> the selector of \<open>Error(string)\<close>, that
  is the first four bytes \<open>k0 k1 k2 k3\<close> of the Keccak-256 digest of the thirteen
  bytes of that signature, read as a big-endian integer, and reverts with the region
  that starts at \<open>buf + 28\<close>, four bytes before the payload, and is
  \<open>4 + encoded_length\<close> long. \<open>raise\<close> yields the sequence itself,
  \<open>assert\<close> yields \<open>if (iszero test) sequence\<close>.
\<close>

theorem revert_with_reason:
  assumes nsent: "msg \<noteq> Name ''UNREACHABLE''"
      and m: "Expr_ir env msg False (ctx\<lparr>constancy := Constant\<rparr>) = (Inr msg_ir0, c1)"
      and w: "wrap_value_for_external_return env msg_ir0 = Inr msg_ir"
      and ty: "ir_typ msg_ir = Some ty"
      and buf: "new_internal_variable env
                  (Some (get_type_for_exact_size env (64 + memory_bytes_required env ty)))
                  (c1\<lparr>constancy := constancy ctx\<rparr>) = (Inr buf, c2)"
      and kec: "keccak256 env [69, 114, 114, 111, 114, 40, 115, 116, 114, 105, 110, 103, 41]
                  = k0 # k1 # k2 # k3 # digest_rest"
      and enc: "abi_encode env (add_ofst env buf 32) msg_ir (32 + memory_bytes_required env ty) True c2
                  = (Inr encoded_length0, c3)"
      and cache: "cache_when_complex env encoded_length0 ''encoded_len'' = (b1, encoded_length)"
  shows "parse_Raise env (Some msg) ctx
           = (Inr (from_list
                     (resolve b1
                        (L ''seq'' [L ''mstore'' [N buf, I (int k0 * 2 ^ 24 + int k1 * 2 ^ 16 + int k2 * 2 ^ 8 + int k3)],
                                    L ''revert'' [N (add_ofst env buf 28), L ''add'' [I 4, N encoded_length]]]))
                     None None (Some ''user revert with reason'')), c3)
       \<and> (\<forall>test ctx0 test_expr.
             parse_value_expr env test ctx0 = (Inr test_expr, ctx) \<longrightarrow>
             parse_Assert env test (Some msg) ctx0
               = (Inr (from_list
                         (L ''if''
                            [L ''iszero'' [N test_expr],
                             resolve b1
                               (L ''seq'' [L ''mstore'' [N buf, I (int k0 * 2 ^ 24 + int k1 * 2 ^ 16 + int k2 * 2 ^ 8 + int k3)],
                                           L ''revert'' [N (add_ofst env buf 28),
                                                         L ''add'' [I 4, N encoded_length]]])])
                         None None (Some ''user revert with reason'')), c3))"
proof -
  let ?mid = "int k0 * 2 ^ 24 + int k1 * 2 ^ 16 + int k2 * 2 ^ 8 + int k3"
  have bytes: "map of_char ''Error(string)'' = [69, 114, 114, 111, 114, 40, 115, 116, 114, 105, 110, 103, 41 :: nat]"
    by simp
  have mid: "method_id_int env ''Error(string)'' = Inr ?mid"
    using kec by (simp add: method_id_int_def method_id_def fourbytes_to_int_def bytes)
  have blk: "assert_reason_msg_ir env msg ctx = (Inr msg_ir0, c1\<lparr>constancy := constancy ctx\<rparr>)"
    using m by (simp add: assert_reason_msg_ir_def Let_def)
  have sz: "64 + memory_bytes_required env ty - 32 = 32 + memory_bytes_required env ty"
    by simp
  have r: "assert_reason env t msg ctx
             = (Inr (from_list
                  (case t of
                     None \<Rightarrow> resolve b1
                        (L ''seq'' [L ''mstore'' [N buf, I ?mid],
                                    L ''revert'' [N (add_ofst env buf 28), L ''add'' [I 4, N encoded_length]]])
                   | Some te \<Rightarrow> L ''if'' [L ''iszero'' [N te], resolve b1
                        (L ''seq'' [L ''mstore'' [N buf, I ?mid],
                                    L ''revert'' [N (add_ofst env buf 28), L ''add'' [I 4, N encoded_length]]])])
                  None None (Some ''user revert with reason'')), c3)" for t
    using nsent blk w ty buf mid enc cache
    by (cases t) (simp_all add: assert_reason_def bindL_def liftE_def returnL_def Let_def sz)
  show ?thesis
    using r [of None] r [of "Some te" for te]
    by (simp add: parse_Raise_def parse_Assert_def bindL_def)
qed

text \<open>
  The theorem at \<open>raise "message"\<close> and at \<open>assert x, "message"\<close>: the
  buffer has 128 bytes, the budget of the encoder is 96, and the selector stored is
  0x08c379a0 = 147028384.
\<close>

theorem revert_with_reason_witness:
  "parse_Raise ex_env (Some (StrLit ''message'')) ex_ctx
     = (Inr (from_list
               (resolve
                  (fst (cache_when_complex ex_env
                          (from_list
                             (L ''abi_encode''
                                [N (add_ofst ex_env (ex_node (IInt 1) [] (Some (BytesT 128)) (Some MEMORY)) 32),
                                 N (ex_lower (StrLit ''message'')), I 96])
                             (Some UINT256_T) None None)
                          ''encoded_len''))
                  (L ''seq''
                     [L ''mstore'' [N (ex_node (IInt 1) [] (Some (BytesT 128)) (Some MEMORY)), I 147028384],
                      L ''revert''
                        [N (add_ofst ex_env (ex_node (IInt 1) [] (Some (BytesT 128)) (Some MEMORY)) 28),
                         L ''add'' [I 4, N (from_list (S ''encoded_len'') (Some UINT256_T) None None)]]]))
               None None (Some ''user revert with reason'')),
        ex_ctx\<lparr>internals := 2\<rparr>)
   \<and> parse_Assert ex_env (Name ''x'') (Some (StrLit ''message'')) ex_ctx
     = (Inr (from_list
               (L ''if''
                  [L ''iszero'' [N (ex_lower (Name ''x''))],
                   resolve
                     (fst (cache_when_complex ex_env
                             (from_list
                                (L ''abi_encode''
                                   [N (add_ofst ex_env (ex_node (IInt 2) [] (Some (BytesT 128)) (Some MEMORY)) 32),
                                    N (ex_lower (StrLit ''message'')), I 96])
                                (Some UINT256_T) None None)
                             ''encoded_len''))
                     (L ''seq''
                        [L ''mstore'' [N (ex_node (IInt 2) [] (Some (BytesT 128)) (Some MEMORY)), I 147028384],
                         L ''revert''
                           [N (add_ofst ex_env (ex_node (IInt 2) [] (Some (BytesT 128)) (Some MEMORY)) 28),
                            L ''add'' [I 4, N (from_list (S ''encoded_len'') (Some UINT256_T) None None)]]])])
               None None (Some ''user revert with reason'')),
        ex_ctx\<lparr>internals := 3\<rparr>)"
proof -
  let ?msg = "StrLit ''message''"
  have ne: "?msg \<noteq> Name ''UNREACHABLE''" by simp
  have w: "wrap_value_for_external_return ex_env (ex_lower ?msg) = Inr (ex_lower ?msg)"
    by (simp add: ex_defs)
  have ty: "ir_typ (ex_lower ?msg) = Some (StringT 7)"
    by (simp add: ex_defs model_defs)
  have kec: "keccak256 ex_env [69, 114, 114, 111, 114, 40, 115, 116, 114, 105, 110, 103, 41]
               = 8 # 195 # 121 # 160 # replicate 28 0"
    by (simp add: ex_defs)
  have enc: "abi_encode ex_env (add_ofst ex_env b 32) (ex_lower ?msg)
               (32 + memory_bytes_required ex_env (StringT 7)) True c
             = (Inr (from_list (L ''abi_encode'' [N (add_ofst ex_env b 32), N (ex_lower ?msg), I 96])
                      (Some UINT256_T) None None), c)" for b c
    by (simp add: ex_defs model_defs)
  have cache: "cache_when_complex ex_env
                 (from_list (L ''abi_encode'' [N (add_ofst ex_env b 32), N (ex_lower ?msg), I 96])
                    (Some UINT256_T) None None) ''encoded_len''
               = (fst (cache_when_complex ex_env
                         (from_list (L ''abi_encode'' [N (add_ofst ex_env b 32), N (ex_lower ?msg), I 96])
                            (Some UINT256_T) None None) ''encoded_len''),
                  from_list (S ''encoded_len'') (Some UINT256_T) None None)" for b
    by (simp add: ex_defs model_defs)
  have m1: "Expr_ir ex_env ?msg False (ex_ctx\<lparr>constancy := Constant\<rparr>)
              = (Inr (ex_lower ?msg), ex_ctx\<lparr>constancy := Constant, internals := 1\<rparr>)"
    by (simp add: ex_defs)
  have b1: "new_internal_variable ex_env
              (Some (get_type_for_exact_size ex_env (64 + memory_bytes_required ex_env (StringT 7))))
              (ex_ctx\<lparr>constancy := Constant, internals := 1, constancy := constancy ex_ctx\<rparr>)
            = (Inr (ex_node (IInt 1) [] (Some (BytesT 128)) (Some MEMORY)), ex_ctx\<lparr>internals := 2\<rparr>)"
    by (simp add: ex_defs)
  have t: "parse_value_expr ex_env (Name ''x'') ex_ctx = (Inr (ex_lower (Name ''x'')), ex_ctx\<lparr>internals := 1\<rparr>)"
    by (simp add: ex_defs)
  have m2: "Expr_ir ex_env ?msg False (ex_ctx\<lparr>internals := 1, constancy := Constant\<rparr>)
              = (Inr (ex_lower ?msg), ex_ctx\<lparr>constancy := Constant, internals := 2\<rparr>)"
    by (simp add: ex_defs)
  have b2: "new_internal_variable ex_env
              (Some (get_type_for_exact_size ex_env (64 + memory_bytes_required ex_env (StringT 7))))
              (ex_ctx\<lparr>constancy := Constant, internals := 2, constancy := constancy (ex_ctx\<lparr>internals := 1\<rparr>)\<rparr>)
            = (Inr (ex_node (IInt 2) [] (Some (BytesT 128)) (Some MEMORY)), ex_ctx\<lparr>internals := 3\<rparr>)"
    by (simp add: ex_defs)
  from revert_with_reason [OF ne m1 w ty b1 kec enc cache]
  have p1: "parse_Raise ex_env (Some ?msg) ex_ctx
     = (Inr (from_list
               (resolve
                  (fst (cache_when_complex ex_env
                          (from_list
                             (L ''abi_encode''
                                [N (add_ofst ex_env (ex_node (IInt 1) [] (Some (BytesT 128)) (Some MEMORY)) 32),
                                 N (ex_lower ?msg), I 96])
                             (Some UINT256_T) None None)
                          ''encoded_len''))
                  (L ''seq''
                     [L ''mstore'' [N (ex_node (IInt 1) [] (Some (BytesT 128)) (Some MEMORY)), I 147028384],
                      L ''revert''
                        [N (add_ofst ex_env (ex_node (IInt 1) [] (Some (BytesT 128)) (Some MEMORY)) 28),
                         L ''add'' [I 4, N (from_list (S ''encoded_len'') (Some UINT256_T) None None)]]]))
               None None (Some ''user revert with reason'')),
        ex_ctx\<lparr>internals := 2\<rparr>)"
    by simp
  from revert_with_reason [OF ne m2 w ty b2 kec enc cache, THEN conjunct2, rule_format, OF t]
  have p2: "parse_Assert ex_env (Name ''x'') (Some ?msg) ex_ctx
     = (Inr (from_list
               (L ''if''
                  [L ''iszero'' [N (ex_lower (Name ''x''))],
                   resolve
                     (fst (cache_when_complex ex_env
                             (from_list
                                (L ''abi_encode''
                                   [N (add_ofst ex_env (ex_node (IInt 2) [] (Some (BytesT 128)) (Some MEMORY)) 32),
                                    N (ex_lower ?msg), I 96])
                                (Some UINT256_T) None None)
                             ''encoded_len''))
                     (L ''seq''
                        [L ''mstore'' [N (ex_node (IInt 2) [] (Some (BytesT 128)) (Some MEMORY)), I 147028384],
                         L ''revert''
                           [N (add_ofst ex_env (ex_node (IInt 2) [] (Some (BytesT 128)) (Some MEMORY)) 28),
                            L ''add'' [I 4, N (from_list (S ''encoded_len'') (Some UINT256_T) None None)]]])])
               None None (Some ''user revert with reason'')),
        ex_ctx\<lparr>internals := 3\<rparr>)"
    by simp
  from p1 p2 show ?thesis by simp
qed

text \<open>
  C8. With the name \<open>UNREACHABLE\<close> as message, \<open>raise\<close> lowers to the
  \<open>invalid\<close> primitive and leaves the Context as it was; \<open>assert\<close> lowers
  its condition and wraps it in \<open>assert_unreachable\<close>. Neither result depends on
  the ABI encoder: replacing \<open>abi_encode\<close> by any other function, also one that
  always raises, changes nothing.
\<close>

theorem unreachable_sentinel:
  "parse_Raise env (Some (Name ''UNREACHABLE'')) ctx
     = (Inr (from_list (L ''invalid'' []) None None (Some ''raise unreachable'')), ctx)
   \<and> parse_Assert env test (Some (Name ''UNREACHABLE'')) ctx
     = (case parse_value_expr env test ctx of
          (Inl e, c) \<Rightarrow> (Inl e, c)
        | (Inr test_expr, c) \<Rightarrow>
            (Inr (from_list (L ''assert_unreachable'' [N test_expr]) None None (Some ''assert unreachable'')), c))
   \<and> (\<forall>enc. parse_Raise (env\<lparr>abi_encode := enc\<rparr>) (Some (Name ''UNREACHABLE'')) ctx
               = parse_Raise env (Some (Name ''UNREACHABLE'')) ctx
            \<and> parse_Assert (env\<lparr>abi_encode := enc\<rparr>) test (Some (Name ''UNREACHABLE'')) ctx
               = parse_Assert env test (Some (Name ''UNREACHABLE'')) ctx)"
  by (simp add: parse_Raise_def parse_Assert_def assert_reason_def bindL_def returnL_def
        split: prod.splits sum.splits)

text \<open>
  C9. The message of an assert or raise is lowered in the Context with its constancy
  set to Constant. Whether that lowering returns or raises, the result or the fault
  is passed on and the Context is the one the lowering left, with the constancy put
  back to the value it had before. When the lowering raises, the fault leaves
  \<open>_assert_reason\<close>, \<open>parse_Raise\<close> and \<open>parse_Assert\<close> with exactly
  that Context.
\<close>

theorem reason_constancy_restored:
  "fst (assert_reason_msg_ir env msg ctx) = fst (Expr_ir env msg False (ctx\<lparr>constancy := Constant\<rparr>))
   \<and> snd (assert_reason_msg_ir env msg ctx)
       = (snd (Expr_ir env msg False (ctx\<lparr>constancy := Constant\<rparr>)))\<lparr>constancy := constancy ctx\<rparr>
   \<and> constancy (snd (assert_reason_msg_ir env msg ctx)) = constancy ctx
   \<and> (\<forall>e c1. msg \<noteq> Name ''UNREACHABLE'' \<longrightarrow>
          Expr_ir env msg False (ctx\<lparr>constancy := Constant\<rparr>) = (Inl e, c1) \<longrightarrow>
            assert_reason env test_expr msg ctx = (Inl e, c1\<lparr>constancy := constancy ctx\<rparr>)
          \<and> parse_Raise env (Some msg) ctx = (Inl e, c1\<lparr>constancy := constancy ctx\<rparr>)
          \<and> (\<forall>test ctx0 t. parse_value_expr env test ctx0 = (Inr t, ctx) \<longrightarrow>
                 parse_Assert env test (Some msg) ctx0 = (Inl e, c1\<lparr>constancy := constancy ctx\<rparr>)))"
  by (simp add: assert_reason_msg_ir_def assert_reason_def parse_Raise_def parse_Assert_def
        bindL_def Let_def split: prod.splits)

text \<open>The theorem at \<open>raise boom\<close>, whose message cannot be lowered.\<close>

theorem reason_constancy_restored_witness:
  "parse_Raise ex_env (Some (Name ''boom'')) ex_ctx
     = (Inl (OtherFault ''boom''), ex_ctx\<lparr>internals := 1\<rparr>)
   \<and> constancy (ex_ctx\<lparr>internals := 1\<rparr>) = Mutable"
proof -
  have ne: "Name ''boom'' \<noteq> Name ''UNREACHABLE''" by simp
  have r: "Expr_ir ex_env (Name ''boom'') False (ex_ctx\<lparr>constancy := Constant\<rparr>)
             = (Inl (OtherFault ''boom''), ex_ctx\<lparr>constancy := Constant, internals := 1\<rparr>)"
    by (simp add: ex_defs)
  from reason_constancy_restored [of ex_env "Name ''boom''" ex_ctx None] ne r
  have "parse_Raise ex_env (Some (Name ''boom'')) ex_ctx
          = (Inl (OtherFault ''boom''), ex_ctx\<lparr>constancy := Constant, internals := 1, constancy := constancy ex_ctx\<rparr>)"
    by blast
  then show ?thesis by (simp add: ex_ctx_def)
qed

subsection \<open>Terminated bodies and the implicit return\<close>

lemma nonempty_bodies_If:
  "nonempty_bodies st \<Longrightarrow> node st = IfStmt test body orelse \<Longrightarrow>
     body \<noteq> [] \<and> (\<forall>s \<in> set body. nonempty_bodies s) \<and> (\<forall>s \<in> set orelse. nonempty_bodies s)"
  by (cases st) simp

lemma is_terminated_spec:
  "code \<noteq> [] \<Longrightarrow> \<forall>s \<in> set code. nonempty_bodies s \<Longrightarrow>
     is_terminated code = Inr (terminated_spec code)"
proof (induction code rule: is_terminated.induct)
  case (1 code)
  note ne = \<open>code \<noteq> []\<close>
  have lastwf: "nonempty_bodies (last code)" using "1.prems" by simp
  show ?case
  proof (cases "is_terminus (last code)")
    case True
    then show ?thesis using ne
      by (simp add: is_terminated.simps [of code] terminated_spec.terminus)
  next
    case nt: False
    show ?thesis
    proof (cases "\<exists>test body orelse. node (last code) = IfStmt test body orelse \<and> orelse \<noteq> []")
      case False
      then have "\<not> terminated_spec code"
        using nt by (auto simp: terminated_spec.simps [of code])
      moreover have "is_terminated code = Inr False"
        using False nt ne by (simp add: is_terminated.simps [of code] split: stmt_node.splits)
      ultimately show ?thesis by simp
    next
      case True
      then obtain test body orelse where nd: "node (last code) = IfStmt test body orelse"
        and oe: "orelse \<noteq> []" by blast
      from nonempty_bodies_If [OF lastwf nd]
      have wb: "body \<noteq> []" "\<forall>s \<in> set body. nonempty_bodies s"
        and wo: "\<forall>s \<in> set orelse. nonempty_bodies s" by simp_all
      have ib: "is_terminated body = Inr (terminated_spec body)"
        using "1.IH"(1) [OF ne nt nd oe wb] .
      have spec: "terminated_spec code = (terminated_spec body \<and> terminated_spec orelse)"
        using nt nd oe ne by (auto simp: terminated_spec.simps [of code])
      show ?thesis
      proof (cases "terminated_spec body")
        case False
        then show ?thesis using spec ib nt nd oe ne
          by (simp add: is_terminated.simps [of code])
      next
        case True
        have io: "is_terminated orelse = Inr (terminated_spec orelse)"
          using "1.IH"(2) [OF ne nt nd oe ib True oe wo] .
        show ?thesis using spec ib io True nt nd oe ne
          by (simp add: is_terminated.simps [of code])
      qed
    qed
  qed
qed

lemma parse_stmts_length:
  "parse_stmts env code acc ctx = (Inr irs, c) \<Longrightarrow> length irs = length acc + length code"
proof (induction code arbitrary: acc ctx)
  case Nil
  then show ?case by simp
next
  case (Cons st rest)
  then show ?case
    by (auto split: prod.splits sum.splits)
qed

lemma parse_stmt_bare_return: "parse_stmt env bare_return ctx = implicit_return env ctx"
  by (simp add: parse_stmt.simps bare_return_def implicit_return_def)

text \<open>
  C7. On a body as the parser produces it (no empty body), \<open>_is_terminated\<close>
  returns, and its answer is the specification's notion: terminated exactly when the
  final statement is a terminus, or an \<open>if\<close> with an \<open>else\<close> whose two
  branches are terminated. \<open>parse_body\<close> lowers the statements one by one (one
  IR per statement) and closes the sequence with \<open>pass\<close>. Between the two it
  appends the lowering of one bare \<open>return\<close> exactly when it is asked to ensure
  termination, the function has no return type and the body is not terminated; in
  every other case nothing stands between the statements and the \<open>pass\<close>.
\<close>

theorem termination_insertion:
  assumes ne: "code \<noteq> []" and wf: "\<forall>s \<in> set code. nonempty_bodies s"
  shows "is_terminated code = Inr (terminated_spec code)
       \<and> (\<forall>irs c1. parse_stmts env code [] ctx = (Inr irs, c1) \<longrightarrow>
            length irs = length code
          \<and> (ensure_terminated \<and> return_type c1 = None \<and> \<not> terminated_spec code \<longrightarrow>
               (\<forall>r c2. parse_stmt env bare_return c1 = (Inr r, c2) \<longrightarrow>
                  parse_body env code ensure_terminated ctx
                    = (Inr (from_list (L ''seq'' (irs @ [N r, S ''pass''])) None None None), c2)))
          \<and> (\<not> (ensure_terminated \<and> return_type c1 = None \<and> \<not> terminated_spec code) \<longrightarrow>
               parse_body env code ensure_terminated ctx
                 = (Inr (from_list (L ''seq'' (irs @ [S ''pass''])) None None None), c1)))"
proof -
  have t: "is_terminated code = Inr (terminated_spec code)"
    using ne wf by (rule is_terminated_spec)
  have len: "length irs = length code" if "parse_stmts env code [] ctx = (Inr irs, c1)" for irs c1
    using parse_stmts_length [OF that] by simp
  have app: "parse_body env code ensure_terminated ctx
               = (Inr (from_list (L ''seq'' (irs @ [N r, S ''pass''])) None None None), c2)"
    if "parse_stmts env code [] ctx = (Inr irs, c1)"
      and "ensure_terminated \<and> return_type c1 = None \<and> \<not> terminated_spec code"
      and "parse_stmt env bare_return c1 = (Inr r, c2)" for irs c1 r c2
    using that t by (simp add: parse_body.simps bindE_def parse_stmt_bare_return)
  have noapp: "parse_body env code ensure_terminated ctx
               = (Inr (from_list (L ''seq'' (irs @ [S ''pass''])) None None None), c1)"
    if "parse_stmts env code [] ctx = (Inr irs, c1)"
      and "\<not> (ensure_terminated \<and> return_type c1 = None \<and> \<not> terminated_spec code)" for irs c1
    using that t by (auto simp add: parse_body.simps bindE_def)
  from t len app noapp show ?thesis by blast
qed

text \<open>
  The theorem in a function without return type, on the bodies \<open>pass\<close> (one bare
  return appended), \<open>return\<close> (nothing appended) and
  \<open>if x: return else: return\<close> (terminated, nothing appended).
\<close>

theorem termination_insertion_witness:
  "parse_body ex_env [Stmt (Some ''pass'') False Pass] True ex_ctx
     = (Inr (from_list
               (L ''seq'' [N (set_annotation (Some ''pass'') (from_list (S ''pass'') None None None)),
                           N (set_annotation None (from_list (L ''exit_to'' []) None None None)),
                           S ''pass''])
               None None None), ex_ctx)
   \<and> parse_body ex_env [Stmt (Some ''return'') True (Return None)] True ex_ctx
     = (Inr (from_list
               (L ''seq'' [N (set_annotation (Some ''return'') (from_list (L ''exit_to'' []) None None None)),
                           S ''pass''])
               None None None), ex_ctx)
   \<and> parse_body ex_env
        [Stmt (Some ''if'') False
           (IfStmt (Name ''x'') [Stmt (Some ''return'') True (Return None)]
                                [Stmt (Some ''return'') True (Return None)])] True ex_ctx
     = (Inr (from_list
               (L ''seq''
                  [N (set_annotation (Some ''if'')
                        (from_list
                           (L ''if''
                              [N (ex_lower (Name ''x'')),
                               N (from_list
                                    (L ''seq'' [N (set_annotation (Some ''return'')
                                                     (from_list (L ''exit_to'' []) None None None)),
                                                S ''pass''])
                                    None None None),
                               N (from_list
                                    (L ''seq'' [N (set_annotation (Some ''return'')
                                                     (from_list (L ''exit_to'' []) None None None)),
                                                S ''pass''])
                                    None None None)])
                           None None None)),
                   S ''pass''])
               None None None), ex_ctx\<lparr>internals := 1\<rparr>)"
proof -
  let ?pass = "Stmt (Some ''pass'') False Pass"
  let ?ret = "Stmt (Some ''return'') True (Return None)"
  let ?ite = "Stmt (Some ''if'') False (IfStmt (Name ''x'') [?ret] [?ret])"
  let ?ret_ir = "set_annotation (Some ''return'') (from_list (L ''exit_to'' []) None None None)"
  let ?body_ir = "from_list (L ''seq'' [N ?ret_ir, S ''pass'']) None None None"
  have w1: "[?pass] \<noteq> []" "\<forall>s \<in> set [?pass]. nonempty_bodies s" by simp_all
  have w2: "[?ret] \<noteq> []" "\<forall>s \<in> set [?ret]. nonempty_bodies s" by simp_all
  have w3: "[?ite] \<noteq> []" "\<forall>s \<in> set [?ite]. nonempty_bodies s" by simp_all
  have s1: "parse_stmts ex_env [?pass] [] ex_ctx
              = (Inr [N (set_annotation (Some ''pass'') (from_list (S ''pass'') None None None))], ex_ctx)"
    by (simp add: stmt_defs ex_defs model_defs)
  have s2: "parse_stmts ex_env [?ret] [] ex_ctx = (Inr [N ?ret_ir], ex_ctx)"
    by (simp add: stmt_defs ex_defs model_defs)
  have s3: "parse_stmts ex_env [?ite] [] ex_ctx
              = (Inr [N (set_annotation (Some ''if'')
                          (from_list (L ''if'' [N (ex_lower (Name ''x'')), N ?body_ir, N ?body_ir])
                             None None None))], ex_ctx\<lparr>internals := 1\<rparr>)"
    by (simp add: stmt_defs ex_defs model_defs)
  have r1: "parse_stmt ex_env bare_return ex_ctx
              = (Inr (set_annotation None (from_list (L ''exit_to'' []) None None None)), ex_ctx)"
    by (simp add: stmt_defs ex_defs model_defs)
  have i1: "is_terminated [?pass] = Inr False" by (simp add: is_terminated.simps)
  have i2: "is_terminated [?ret] = Inr True" by (simp add: is_terminated.simps)
  have i3: "is_terminated [?ite] = Inr True" by (simp add: is_terminated.simps)
  have rt: "return_type ex_ctx = None" "return_type (ex_ctx\<lparr>internals := 1\<rparr>) = None"
    by (simp_all add: ex_ctx_def)
  note T1 = termination_insertion [OF w1, of ex_env ex_ctx True]
  note T2 = termination_insertion [OF w2, of ex_env ex_ctx True]
  note T3 = termination_insertion [OF w3, of ex_env ex_ctx True]
  from T1 i1 have n1: "\<not> terminated_spec [?pass]" by simp
  from T2 i2 have n2: "terminated_spec [?ret]" by simp
  from T3 i3 have n3: "terminated_spec [?ite]" by simp
  from T1 s1 r1 n1 rt
  have p1: "parse_body ex_env [?pass] True ex_ctx
     = (Inr (from_list
               (L ''seq'' ([N (set_annotation (Some ''pass'') (from_list (S ''pass'') None None None))]
                           @ [N (set_annotation None (from_list (L ''exit_to'' []) None None None)),
                              S ''pass'']))
               None None None), ex_ctx)"
    by blast
  from T2 s2 n2
  have p2: "parse_body ex_env [?ret] True ex_ctx
     = (Inr (from_list (L ''seq'' ([N ?ret_ir] @ [S ''pass''])) None None None), ex_ctx)"
    by blast
  from T3 s3 n3
  have p3: "parse_body ex_env [?ite] True ex_ctx
     = (Inr (from_list
               (L ''seq'' ([N (set_annotation (Some ''if'')
                          (from_list (L ''if'' [N (ex_lower (Name ''x'')), N ?body_ir, N ?body_ir])
                             None None None))] @ [S ''pass'']))
               None None None), ex_ctx\<lparr>internals := 1\<rparr>)"
    by blast
  from p1 p2 p3 show ?thesis by simp
qed

subsection \<open>Loops\<close>

text \<open>What a lowering that returned says about its steps.\<close>

lemma bindL_Inr_iff:
  "bindL m f ctx = (Inr v, c) \<longleftrightarrow> (\<exists>x c'. m ctx = (Inr x, c') \<and> f x c' = (Inr v, c))"
  by (auto simp: bindL_def split: prod.splits sum.splits)

lemma bindE_Inr_iff: "bindE r f = Inr v \<longleftrightarrow> (\<exists>x. r = Inr x \<and> f x = Inr v)"
  by (auto simp: bindE_def split: sum.splits)

lemma lower_keywords_keys:
  "lower_keywords env kws acc ctx = (Inr kwargs, c) \<Longrightarrow>
     fst ` set kwargs = fst ` set acc \<union> fst ` set kws"
proof (induction kws arbitrary: acc ctx)
  case Nil
  then show ?case by (simp add: returnL_def)
next
  case (Cons kw rest)
  from Cons.prems obtain v c' where
    "lower_keywords env rest (AList.update (fst kw) v acc) c' = (Inr kwargs, c)"
    by (auto simp: bindL_Inr_iff)
  from Cons.IH [OF this] show ?case
    by (auto simp: AList.dom_update)
qed

text \<open>
  The endpoints of \<open>range(a2)\<close> are the literal 0 of the loop variable's type
  and the lowered \<open>a2\<close>; the endpoints of \<open>range(a1, a2)\<close> are the lowered
  \<open>a1\<close> and the lowered \<open>a2\<close>, in this order.
\<close>

lemma range_endpoints_forward:
  assumes "(args = [a2] \<and> start0 = from_list (I 0) (Some tt) None None
              \<and> parse_value_expr env a2 (enter (range_scope env) ctx) = (Inr end0, ca))
         \<or> (\<exists>c'. args = [a1, a2]
              \<and> parse_value_expr env a1 (enter (range_scope env) ctx) = (Inr start0, c')
              \<and> parse_value_expr env a2 c' = (Inr end0, ca))"
  shows "range_endpoints env tt args kws ctx
           = (case lower_keywords env kws [] ca of
                (Inl e, cb) \<Rightarrow> (Inl e, leave (range_scope env) cb)
              | (Inr kwargs, cb) \<Rightarrow> (Inr (start0, end0, kwargs), leave (range_scope env) cb))"
  using assms
  by (auto simp: range_endpoints_def with_scope_def bindL_def returnL_def split: prod.splits sum.splits)

lemma parse_For_range_fault:
  assumes "range_endpoints env tt args kws ctx = (Inr (start0, end0, kwargs), c0)"
      and "range_rounds env tt start0 end0 kwargs = Inl e"
  shows "parse_For_range env v (Some tt) (Call f args kws) body ctx = (Inl e, c0)"
  using assms
  by (simp add: parse_For_range.simps for_range_setup_def bindL_def liftE_def)

lemma parse_For_range_result:
  assumes "range_endpoints env tt args kws ctx = (Inr (start0, end0, kwargs), c0)"
      and "range_rounds env tt start0 end0 kwargs = Inr (b1, start_ir, rounds, rb)"
      and "fresh_varname env ''range_ix'' c0 = (Inr ix, c1)"
      and "new_variable env v tt c1 = (Inr iptr, c2)"
      and "parse_body env body False (c2\<lparr>forvars := (forvars c2)(v \<mapsto> True)\<rparr>) = (Inr body_ir, c3)"
      and "forvars c3 v \<noteq> None"
  shows "parse_For_range env v (Some tt) (Call f args kws) body ctx
           = (Inr (resolve b1 (N (from_list
                     (L ''repeat'' [N (from_list (S ix) (Some tt) None None), N start_ir, rounds, I rb,
                                    L ''seq'' [L ''mstore'' [N iptr, N (from_list (S ix) (Some tt) None None)],
                                               N body_ir]])
                     None None (Some ''range() bounds check'')))),
              c3\<lparr>forvars := (forvars c3)(v := None)\<rparr>)"
  using assms
  by (simp add: parse_For_range.simps for_range_setup_def for_range_finish_def set_forvar_def
        del_forvar_def bindL_def liftE_def returnL_def)

lemma parse_For_range_inv:
  assumes "parse_For_range env v (Some tt) (Call f args kws) body ctx = (Inr r, c)"
  shows "\<exists>start0 end0 kwargs c0 hdr.
           range_endpoints env tt args kws ctx = (Inr (start0, end0, kwargs), c0)
         \<and> range_rounds env tt start0 end0 kwargs = Inr hdr"
  using assms
  by (auto simp: parse_For_range.simps for_range_setup_def bindL_def liftE_def
           split: prod.splits sum.splits)

lemma range_rounds_exact:
  assumes "range_rounds env tt start0 end0 kwargs = Inr hdr"
      and "map_of kwargs ''bound'' = None"
  shows "kwargs = [] \<and> \<not> is_complex_ir env start0
       \<and> (\<exists>s e. int_value start0 = Inr s \<and> int_value end0 = Inr e \<and> 1 \<le> e - s)"
  using assms
  by (auto simp: range_rounds_def bindE_Inr_iff cache_when_complex_def Let_def int_value_def
           split: prod.splits if_splits irval.splits)

lemma cache_when_complex_typ: "ir_typ (snd (cache_when_complex env n name)) = ir_typ n"
  by (simp add: cache_when_complex_def Let_def ir_typ_def)

text \<open>
  C5. Take \<open>range(a2)\<close>, whose start is the literal 0 of the loop variable's
  type, or \<open>range(a1, a2)\<close>, whose start is the lowered \<open>a1\<close>; the end is the
  lowered \<open>a2\<close>. Without keywords, when the endpoints have the loop variable's
  type and are the literals \<open>s\<close> and \<open>e\<close>: if \<open>e - s\<close> is below 1 the
  loop is refused with the TypeCheckFailure; otherwise the repeat counts from the
  start, and its round count and its declared bound are both the integer
  \<open>e - s\<close>. Conversely, a range loop that carries no \<open>bound\<close> keyword and
  is lowered carries no keyword at all, both its endpoints are literals, and
  \<open>e - s\<close> is at least 1.
\<close>

theorem range_loop_exact:
  assumes ep: "(args = [a2] \<and> start0 = from_list (I 0) (Some tt) None None
                  \<and> parse_value_expr env a2 (enter (range_scope env) ctx) = (Inr end0, ca))
             \<or> (\<exists>c'. args = [a1, a2]
                  \<and> parse_value_expr env a1 (enter (range_scope env) ctx) = (Inr start0, c')
                  \<and> parse_value_expr env a2 c' = (Inr end0, ca))"
  shows "(\<forall>s e. ir_typ start0 = Some tt \<longrightarrow> ir_typ end0 = Some tt \<longrightarrow>
                \<not> is_complex_ir env start0 \<longrightarrow> int_value start0 = Inr s \<longrightarrow> int_value end0 = Inr e \<longrightarrow>
            (e - s < 1 \<longrightarrow>
               parse_For_range env v (Some tt) (Call f args []) body ctx
                 = (Inl (TypeCheckFailure ''unreachable: unchecked 0 bound''), leave (range_scope env) ca))
          \<and> (1 \<le> e - s \<longrightarrow>
               (\<forall>ix c1 iptr c2 body_ir c3.
                  fresh_varname env ''range_ix'' (leave (range_scope env) ca) = (Inr ix, c1) \<longrightarrow>
                  new_variable env v tt c1 = (Inr iptr, c2) \<longrightarrow>
                  parse_body env body False (c2\<lparr>forvars := (forvars c2)(v \<mapsto> True)\<rparr>) = (Inr body_ir, c3) \<longrightarrow>
                  forvars c3 v \<noteq> None \<longrightarrow>
                  parse_For_range env v (Some tt) (Call f args []) body ctx
                    = (Inr (N (from_list
                                 (L ''repeat''
                                    [N (from_list (S ix) (Some tt) None None), N start0, I (e - s), I (e - s),
                                     L ''seq'' [L ''mstore'' [N iptr, N (from_list (S ix) (Some tt) None None)],
                                                N body_ir]])
                                 None None (Some ''range() bounds check''))),
                       c3\<lparr>forvars := (forvars c3)(v := None)\<rparr>))))
       \<and> (\<forall>kws r c. ''bound'' \<notin> fst ` set kws \<longrightarrow>
            parse_For_range env v (Some tt) (Call f args kws) body ctx = (Inr r, c) \<longrightarrow>
            kws = [] \<and> (\<exists>s e. int_value start0 = Inr s \<and> int_value end0 = Inr e \<and> 1 \<le> e - s))"
proof -
  from range_endpoints_forward [OF ep, of "[]"]
  have re: "range_endpoints env tt args [] ctx = (Inr (start0, end0, []), leave (range_scope env) ca)"
    by (simp add: returnL_def)
  have fwd: "(e - s < 1 \<longrightarrow>
               parse_For_range env v (Some tt) (Call f args []) body ctx
                 = (Inl (TypeCheckFailure ''unreachable: unchecked 0 bound''), leave (range_scope env) ca))
          \<and> (1 \<le> e - s \<longrightarrow>
               (\<forall>ix c1 iptr c2 body_ir c3.
                  fresh_varname env ''range_ix'' (leave (range_scope env) ca) = (Inr ix, c1) \<longrightarrow>
                  new_variable env v tt c1 = (Inr iptr, c2) \<longrightarrow>
                  parse_body env body False (c2\<lparr>forvars := (forvars c2)(v \<mapsto> True)\<rparr>) = (Inr body_ir, c3) \<longrightarrow>
                  forvars c3 v \<noteq> None \<longrightarrow>
                  parse_For_range env v (Some tt) (Call f args []) body ctx
                    = (Inr (N (from_list
                                 (L ''repeat''
                                    [N (from_list (S ix) (Some tt) None None), N start0, I (e - s), I (e - s),
                                     L ''seq'' [L ''mstore'' [N iptr, N (from_list (S ix) (Some tt) None None)],
                                                N body_ir]])
                                 None None (Some ''range() bounds check''))),
                       c3\<lparr>forvars := (forvars c3)(v := None)\<rparr>)))"
    if ty: "ir_typ start0 = Some tt" "ir_typ end0 = Some tt"
      and simple: "\<not> is_complex_ir env start0"
      and s: "int_value start0 = Inr s" and e: "int_value end0 = Inr e"
    for s e
  proof (intro conjI impI allI)
    assume "e - s < 1"
    with ty simple s e
    have "range_rounds env tt start0 end0 [] = Inl (TypeCheckFailure ''unreachable: unchecked 0 bound'')"
      by (simp add: range_rounds_def cache_when_complex_def Let_def bindE_def)
    from parse_For_range_fault [OF re this]
    show "parse_For_range env v (Some tt) (Call f args []) body ctx
            = (Inl (TypeCheckFailure ''unreachable: unchecked 0 bound''), leave (range_scope env) ca)" .
  next
    fix ix c1 iptr c2 body_ir c3
    assume pos: "1 \<le> e - s"
      and fv: "fresh_varname env ''range_ix'' (leave (range_scope env) ca) = (Inr ix, c1)"
      and nv: "new_variable env v tt c1 = (Inr iptr, c2)"
      and bd: "parse_body env body False (c2\<lparr>forvars := (forvars c2)(v \<mapsto> True)\<rparr>) = (Inr body_ir, c3)"
      and reg: "forvars c3 v \<noteq> None"
    from ty simple s e pos
    have rr: "range_rounds env tt start0 end0 []
                = Inr (fst (cache_when_complex env start0 ''start''), start0, I (e - s), e - s)"
      by (simp add: range_rounds_def cache_when_complex_def Let_def bindE_def)
    from simple have inl: "should_inline (fst (cache_when_complex env start0 ''start''))"
      by (simp add: cache_when_complex_def Let_def)
    from parse_For_range_result [OF re rr fv nv bd reg, of f] inl
    show "parse_For_range env v (Some tt) (Call f args []) body ctx
            = (Inr (N (from_list
                         (L ''repeat''
                            [N (from_list (S ix) (Some tt) None None), N start0, I (e - s), I (e - s),
                             L ''seq'' [L ''mstore'' [N iptr, N (from_list (S ix) (Some tt) None None)],
                                        N body_ir]])
                         None None (Some ''range() bounds check''))),
               c3\<lparr>forvars := (forvars c3)(v := None)\<rparr>)"
      by (simp add: resolve_def)
  qed
  have inv: "kws = [] \<and> (\<exists>s e. int_value start0 = Inr s \<and> int_value end0 = Inr e \<and> 1 \<le> e - s)"
    if nb: "''bound'' \<notin> fst ` set kws"
      and ok: "parse_For_range env v (Some tt) (Call f args kws) body ctx = (Inr r, c)"
    for kws r c
  proof -
    from parse_For_range_inv [OF ok] obtain s0 e0 kwargs c0 hdr where
      re': "range_endpoints env tt args kws ctx = (Inr (s0, e0, kwargs), c0)"
      and rr: "range_rounds env tt s0 e0 kwargs = Inr hdr"
      by blast
    from re' range_endpoints_forward [OF ep, of kws] obtain cb where
      lk: "lower_keywords env kws [] ca = (Inr kwargs, cb)" and eq: "s0 = start0" "e0 = end0"
      by (auto split: prod.splits sum.splits)
    from lower_keywords_keys [OF lk] nb have keys: "fst ` set kwargs = fst ` set kws"
      and "map_of kwargs ''bound'' = None"
      by (simp_all add: map_of_eq_None_iff)
    from range_rounds_exact [OF rr this(2)] keys eq show ?thesis
      by auto
  qed
  from fwd inv show ?thesis by blast
qed

text \<open>
  The theorem at \<open>for i in range(5): pass\<close> (from 0, round count 5, declared
  bound 5), at \<open>for i in range(3, 8): pass\<close> (from 3, round count 5, declared
  bound 5), at \<open>range(0)\<close> and \<open>range(8, 3)\<close> (refused), and at
  \<open>range(n)\<close> with a variable \<open>n\<close> (never lowered).
\<close>

theorem range_loop_exact_witness:
  "parse_For_range ex_env ''i'' (Some UINT256_T) (Call (Name ''range'') [IntLit 5] []) [Stmt (Some ''pass'') False Pass] ex_ctx
     = (Inr (N (from_list
                  (L ''repeat''
                     [N (from_list (S ''range_ix_'') (Some UINT256_T) None None),
                      N (from_list (I 0) (Some UINT256_T) None None),
                      I 5, I 5,
                      L ''seq''
                        [L ''mstore'' [N (ex_node (IStr ''i'') [] (Some UINT256_T) (Some MEMORY)),
                                       N (from_list (S ''range_ix_'') (Some UINT256_T) None None)],
                         N (from_list
                              (L ''seq'' [N (set_annotation (Some ''pass'') (from_list (S ''pass'') None None None)),
                                          S ''pass''])
                              None None None)]])
                  None None (Some ''range() bounds check''))),
        ex_ctx\<lparr>internals := 3\<rparr>)
   \<and> parse_For_range ex_env ''i'' (Some UINT256_T) (Call (Name ''range'') [IntLit 3, IntLit 8] []) [Stmt (Some ''pass'') False Pass] ex_ctx
     = (Inr (N (from_list
                  (L ''repeat''
                     [N (from_list (S ''range_ix__'') (Some UINT256_T) None None),
                      N (ex_lower (IntLit 3)),
                      I 5, I 5,
                      L ''seq''
                        [L ''mstore'' [N (ex_node (IStr ''i'') [] (Some UINT256_T) (Some MEMORY)),
                                       N (from_list (S ''range_ix__'') (Some UINT256_T) None None)],
                         N (from_list
                              (L ''seq'' [N (set_annotation (Some ''pass'') (from_list (S ''pass'') None None None)),
                                          S ''pass''])
                              None None None)]])
                  None None (Some ''range() bounds check''))),
        ex_ctx\<lparr>internals := 4\<rparr>)
   \<and> parse_For_range ex_env ''i'' (Some UINT256_T) (Call (Name ''range'') [IntLit 0] []) [Stmt (Some ''pass'') False Pass] ex_ctx
     = (Inl (TypeCheckFailure ''unreachable: unchecked 0 bound''), ex_ctx\<lparr>internals := 1\<rparr>)
   \<and> parse_For_range ex_env ''i'' (Some UINT256_T) (Call (Name ''range'') [IntLit 8, IntLit 3] []) [Stmt (Some ''pass'') False Pass] ex_ctx
     = (Inl (TypeCheckFailure ''unreachable: unchecked 0 bound''), ex_ctx\<lparr>internals := 2\<rparr>)
   \<and> (\<forall>r c. parse_For_range ex_env ''i'' (Some UINT256_T) (Call (Name ''range'') [Name ''n''] [])
                [Stmt (Some ''pass'') False Pass] ex_ctx \<noteq> (Inr r, c))"
  (is "?A \<and> ?B \<and> ?C \<and> ?D \<and> ?E")
proof -
  let ?zero = "from_list (I 0) (Some UINT256_T) None None"
  let ?iptr = "ex_node (IStr ''i'') [] (Some UINT256_T) (Some MEMORY)"
  let ?body = "[Stmt (Some ''pass'') False Pass]"
  let ?body_ir = "from_list
                    (L ''seq'' [N (set_annotation (Some ''pass'') (from_list (S ''pass'') None None None)),
                                S ''pass''])
                    None None None"
  have tz: "ir_typ ?zero = Some UINT256_T" and sz: "\<not> is_complex_ir ex_env ?zero"
    and vz: "int_value ?zero = Inr 0"
    by (simp_all add: ex_defs model_defs int_value_def)
  have tl: "ir_typ (ex_lower (IntLit k)) = Some UINT256_T" and sl: "\<not> is_complex_ir ex_env (ex_lower (IntLit k))"
    and vl: "int_value (ex_lower (IntLit k)) = Inr k" for k
    by (simp_all add: ex_defs model_defs int_value_def)
  have ep5: "([IntLit 5] = [IntLit 5] \<and> ?zero = from_list (I 0) (Some UINT256_T) None None
                \<and> parse_value_expr ex_env (IntLit 5) (enter (range_scope ex_env) ex_ctx)
                    = (Inr (ex_lower (IntLit 5)), ex_ctx\<lparr>internals := 1\<rparr>))
           \<or> (\<exists>c'. [IntLit 5] = [IntLit 0, IntLit 5]
                \<and> parse_value_expr ex_env (IntLit 0) (enter (range_scope ex_env) ex_ctx) = (Inr ?zero, c')
                \<and> parse_value_expr ex_env (IntLit 5) c' = (Inr (ex_lower (IntLit 5)), ex_ctx\<lparr>internals := 1\<rparr>))"
    by (simp add: ex_defs)
  have fv5: "fresh_varname ex_env ''range_ix'' (leave (range_scope ex_env) (ex_ctx\<lparr>internals := 1\<rparr>))
               = (Inr ''range_ix_'', ex_ctx\<lparr>internals := 2\<rparr>)"
    by (simp add: ex_defs)
  have nv5: "new_variable ex_env ''i'' UINT256_T (ex_ctx\<lparr>internals := 2\<rparr>) = (Inr ?iptr, ex_ctx\<lparr>internals := 3\<rparr>)"
    by (simp add: ex_defs)
  have bd5: "parse_body ex_env ?body False
               (ex_ctx\<lparr>internals := 3, forvars := (forvars (ex_ctx\<lparr>internals := 3\<rparr>))(''i'' \<mapsto> True)\<rparr>)
             = (Inr ?body_ir, ex_ctx\<lparr>internals := 3, forvars := [''i'' \<mapsto> True]\<rparr>)"
    by (simp add: stmt_defs ex_defs model_defs)
  have reg5: "forvars (ex_ctx\<lparr>internals := 3, forvars := [''i'' \<mapsto> True]\<rparr>) ''i'' \<noteq> None" by simp
  note f5 = range_loop_exact [OF ep5, where v = "''i''" and f = "Name ''range''" and body = ?body,
                THEN conjunct1, rule_format, OF tz tl sz vz vl]
  from f5 [THEN conjunct2, rule_format, OF _ fv5 nv5 bd5 reg5]
  have a: ?A by (simp add: ex_defs)
  have ep38: "([IntLit 3, IntLit 8] = [IntLit 8] \<and> ex_lower (IntLit 3) = from_list (I 0) (Some UINT256_T) None None
                \<and> parse_value_expr ex_env (IntLit 8) (enter (range_scope ex_env) ex_ctx)
                    = (Inr (ex_lower (IntLit 8)), ex_ctx\<lparr>internals := 2\<rparr>))
           \<or> (\<exists>c'. [IntLit 3, IntLit 8] = [IntLit 3, IntLit 8]
                \<and> parse_value_expr ex_env (IntLit 3) (enter (range_scope ex_env) ex_ctx) = (Inr (ex_lower (IntLit 3)), c')
                \<and> parse_value_expr ex_env (IntLit 8) c' = (Inr (ex_lower (IntLit 8)), ex_ctx\<lparr>internals := 2\<rparr>))"
    by (simp add: ex_defs)
  have fv38: "fresh_varname ex_env ''range_ix'' (leave (range_scope ex_env) (ex_ctx\<lparr>internals := 2\<rparr>))
               = (Inr ''range_ix__'', ex_ctx\<lparr>internals := 3\<rparr>)"
    by (simp add: ex_defs numeral_2_eq_2)
  have nv38: "new_variable ex_env ''i'' UINT256_T (ex_ctx\<lparr>internals := 3\<rparr>) = (Inr ?iptr, ex_ctx\<lparr>internals := 4\<rparr>)"
    by (simp add: ex_defs)
  have bd38: "parse_body ex_env ?body False
               (ex_ctx\<lparr>internals := 4, forvars := (forvars (ex_ctx\<lparr>internals := 4\<rparr>))(''i'' \<mapsto> True)\<rparr>)
             = (Inr ?body_ir, ex_ctx\<lparr>internals := 4, forvars := [''i'' \<mapsto> True]\<rparr>)"
    by (simp add: stmt_defs ex_defs model_defs)
  have reg38: "forvars (ex_ctx\<lparr>internals := 4, forvars := [''i'' \<mapsto> True]\<rparr>) ''i'' \<noteq> None" by simp
  note f38 = range_loop_exact [OF ep38, where v = "''i''" and f = "Name ''range''" and body = ?body,
                THEN conjunct1, rule_format, OF tl tl sl vl vl]
  from f38 [THEN conjunct2, rule_format, OF _ fv38 nv38 bd38 reg38]
  have b: ?B by (simp add: ex_defs)
  have ep0: "([IntLit 0] = [IntLit 0] \<and> ?zero = from_list (I 0) (Some UINT256_T) None None
                \<and> parse_value_expr ex_env (IntLit 0) (enter (range_scope ex_env) ex_ctx)
                    = (Inr (ex_lower (IntLit 0)), ex_ctx\<lparr>internals := 1\<rparr>))
           \<or> (\<exists>c'. [IntLit 0] = [IntLit 0, IntLit 0]
                \<and> parse_value_expr ex_env (IntLit 0) (enter (range_scope ex_env) ex_ctx) = (Inr ?zero, c')
                \<and> parse_value_expr ex_env (IntLit 0) c' = (Inr (ex_lower (IntLit 0)), ex_ctx\<lparr>internals := 1\<rparr>))"
    by (simp add: ex_defs)
  from range_loop_exact [OF ep0, where v = "''i''" and f = "Name ''range''" and body = ?body,
                THEN conjunct1, rule_format, OF tz tl sz vz vl, THEN conjunct1]
  have c: ?C by (simp add: ex_defs)
  have ep83: "([IntLit 8, IntLit 3] = [IntLit 3] \<and> ex_lower (IntLit 8) = from_list (I 0) (Some UINT256_T) None None
                \<and> parse_value_expr ex_env (IntLit 3) (enter (range_scope ex_env) ex_ctx)
                    = (Inr (ex_lower (IntLit 3)), ex_ctx\<lparr>internals := 2\<rparr>))
           \<or> (\<exists>c'. [IntLit 8, IntLit 3] = [IntLit 8, IntLit 3]
                \<and> parse_value_expr ex_env (IntLit 8) (enter (range_scope ex_env) ex_ctx) = (Inr (ex_lower (IntLit 8)), c')
                \<and> parse_value_expr ex_env (IntLit 3) c' = (Inr (ex_lower (IntLit 3)), ex_ctx\<lparr>internals := 2\<rparr>))"
    by (simp add: ex_defs)
  from range_loop_exact [OF ep83, where v = "''i''" and f = "Name ''range''" and body = ?body,
                THEN conjunct1, rule_format, OF tl tl sl vl vl, THEN conjunct1]
  have d: ?D by (simp add: ex_defs)
  have epn: "([Name ''n''] = [Name ''n''] \<and> ?zero = from_list (I 0) (Some UINT256_T) None None
                \<and> parse_value_expr ex_env (Name ''n'') (enter (range_scope ex_env) ex_ctx)
                    = (Inr (ex_lower (Name ''n'')), ex_ctx\<lparr>internals := 1\<rparr>))
           \<or> (\<exists>c'. [Name ''n''] = [IntLit 0, Name ''n'']
                \<and> parse_value_expr ex_env (IntLit 0) (enter (range_scope ex_env) ex_ctx) = (Inr ?zero, c')
                \<and> parse_value_expr ex_env (Name ''n'') c' = (Inr (ex_lower (Name ''n'')), ex_ctx\<lparr>internals := 1\<rparr>))"
    by (simp add: ex_defs)
  have e: ?E
  proof (intro allI notI)
    fix r c
    assume ok: "parse_For_range ex_env ''i'' (Some UINT256_T) (Call (Name ''range'') [Name ''n''] []) ?body ex_ctx
                  = (Inr r, c)"
    from range_loop_exact [OF epn, where v = "''i''" and f = "Name ''range''" and body = ?body,
                THEN conjunct2, rule_format, OF _ ok]
    have "\<exists>s e. int_value ?zero = Inr s \<and> int_value (ex_lower (Name ''n'')) = Inr e \<and> 1 \<le> e - s"
      by simp
    then show False by (simp add: int_value_def ex_node_def)
  qed
  from a b c d e show ?thesis by simp
qed




text \<open>
  C6. Let the iterable lower to a node of type \<open>lt\<close>, a fixed array of
  \<open>n\<close> elements or a dynamic array of capacity \<open>n\<close>. The list iterated is
  that node when it is a location; otherwise it is a fresh internal variable of type
  \<open>lt\<close>, and the copy of the node into it is the first statement of the result.
  The last statement is the repeat over the (cached) list, counting from 0: for a
  dynamic array its round count is the IR that \<open>get_dyn_array_count\<close> gives for
  the list, the read of its length, and for a fixed array it is the integer \<open>n\<close>;
  the declared bound is the integer \<open>n\<close> in both cases.
\<close>

theorem list_loop_rounds:
  assumes it: "Expr_ir env iter False (enter (range_scope env) ctx) = (Inr iter_list0, c0)"
      and ity: "ir_typ iter_list0 = Some lt"
      and lty: "lt = SArrayT tt n \<or> lt = DArrayT tt n"
      and nv: "new_variable env v tt (leave (range_scope env) c0) = (Inr loop_var, c1)"
      and fv: "fresh_varname env ''for_list_ix'' c1 = (Inr ix, c2)"
      and stage: "(is_pointer iter_list0 \<and> ret = [] \<and> iter_list1 = iter_list0
                     \<and> c3 = c2\<lparr>forvars := (forvars c2)(v \<mapsto> True)\<rparr>)
                \<or> (\<not> is_pointer iter_list0
                     \<and> new_internal_variable env (Some lt) (c2\<lparr>forvars := (forvars c2)(v \<mapsto> True)\<rparr>)
                         = (Inr iter_list1, c3)
                     \<and> ir_typ iter_list1 = Some lt
                     \<and> make_setter env iter_list1 iter_list0 = Inr copy \<and> ret = [N copy])"
      and el: "get_element_ptr env (snd (cache_when_complex env iter_list1 ''list_iter''))
                 (from_list (S ix) (Some UINT256_T) None None) False = Inr e"
      and st: "make_setter env loop_var e = Inr setter"
      and body: "parse_body env body False c3 = (Inr body_ir, c4)"
      and reg: "forvars c4 v \<noteq> None"
      and len: "lt = DArrayT tt n \<longrightarrow>
                  get_dyn_array_count env (snd (cache_when_complex env iter_list1 ''list_iter'')) = Inr len"
  shows "parse_For_list env v (Some tt) iter body ctx
           = (Inr (resolve (fst (cache_when_complex env iter_list1 ''list_iter''))
                     (N (from_list
                           (L ''seq''
                              (ret @ [L ''repeat''
                                        [N (from_list (S ix) (Some UINT256_T) None None), I 0,
                                         (if lt = DArrayT tt n then N len else I (int n)), I (int n),
                                         L ''seq'' [N setter, N body_ir]]]))
                           None None None))),
              c4\<lparr>forvars := (forvars c4)(v := None)\<rparr>)"
proof -
  let ?b1 = "fst (cache_when_complex env iter_list1 ''list_iter'')"
  let ?il = "snd (cache_when_complex env iter_list1 ''list_iter'')"
  let ?i = "from_list (S ix) (Some UINT256_T) None None"
  from lty have vt: "value_type lt = Inr tt" and cnt: "count lt = Inr n"
    by auto
  from stage ity have t1: "ir_typ iter_list1 = Some lt"
    by auto
  with cache_when_complex_typ [of env iter_list1 "''list_iter''"]
  have til: "ir_typ ?il = Some lt" by simp
  have stp: "for_list_setup env v (Some tt) iter ctx = (Inr (ret, ?b1, ?il, ?i, setter), c3)"
    using stage
  proof (elim disjE conjE)
    assume "is_pointer iter_list0" "ret = []" "iter_list1 = iter_list0"
      "c3 = c2\<lparr>forvars := (forvars c2)(v \<mapsto> True)\<rparr>"
    with it ity vt nv fv el st show ?thesis
      by (simp add: for_list_setup_def with_scope_def set_forvar_def Let_def case_prod_beta
            bindL_def liftE_def returnL_def)
  next
    assume "\<not> is_pointer iter_list0"
      "new_internal_variable env (Some lt) (c2\<lparr>forvars := (forvars c2)(v \<mapsto> True)\<rparr>)
         = (Inr iter_list1, c3)"
      "make_setter env iter_list1 iter_list0 = Inr copy" "ret = [N copy]"
    with it ity vt nv fv el st show ?thesis
      by (simp add: for_list_setup_def with_scope_def set_forvar_def Let_def case_prod_beta
            bindL_def liftE_def returnL_def)
  qed
  have fin: "for_list_finish env v (ret, ?b1, ?il, ?i, setter) body_ir c4
               = (Inr (resolve ?b1
                     (N (from_list
                           (L ''seq''
                              (ret @ [L ''repeat''
                                        [N ?i, I 0,
                                         (if lt = DArrayT tt n then N len else I (int n)), I (int n),
                                         L ''seq'' [N setter, N body_ir]]]))
                           None None None))),
                  c4\<lparr>forvars := (forvars c4)(v := None)\<rparr>)"
    using til cnt reg len lty
    by (auto simp: for_list_finish_def del_forvar_def bindL_def liftE_def returnL_def)
  from stp body fin show ?thesis
    by (simp add: parse_For_list.simps)
qed

text \<open>
  The theorem at \<open>for e in b: pass\<close> on the fixed array of capacity 4 (round
  count 4, bound 4), at \<open>for e in a: pass\<close> on the dynamic array of capacity 4
  (round count read from the length, bound 4), at \<open>for e in [1, 2, 3]: pass\<close>
  (copied to the temporary at address 3; round count 3, bound 3) and at
  \<open>for e in dyn(): pass\<close> (copied to the temporary; round count read from the
  length of the temporary, bound 4).
\<close>

theorem list_loop_rounds_witness:
  "parse_For_list ex_env ''e'' (Some UINT256_T) (Name ''b'') [Stmt (Some ''pass'') False Pass] ex_ctx
     = (Inr (N (from_list
                  (L ''seq''
                     [L ''repeat''
                        [N (from_list (S ''for_list_ix__'') (Some UINT256_T) None None),
                         I 0, I 4, I 4,
                         L ''seq''
                           [N (from_list
                                 (L ''set''
                                    [N (ex_node (IStr ''e'') [] (Some UINT256_T) (Some MEMORY)),
                                     N (from_list
                                          (L ''elem'' [N (ex_lower (Name ''b'')),
                                                       N (from_list (S ''for_list_ix__'') (Some UINT256_T) None None)])
                                          None (Some STORAGE) None)])
                                 None None None),
                            N (from_list
                                 (L ''seq'' [N (set_annotation (Some ''pass'') (from_list (S ''pass'') None None None)),
                                             S ''pass''])
                                 None None None)]]])
                  None None None)),
        ex_ctx\<lparr>internals := 3\<rparr>)
   \<and> parse_For_list ex_env ''e'' (Some UINT256_T) (Name ''a'') [Stmt (Some ''pass'') False Pass] ex_ctx
     = (Inr (N (from_list
                  (L ''seq''
                     [L ''repeat''
                        [N (from_list (S ''for_list_ix__'') (Some UINT256_T) None None),
                         I 0, N (from_list (L ''load'' [N (ex_lower (Name ''a''))]) (Some UINT256_T) None None), I 4,
                         L ''seq''
                           [N (from_list
                                 (L ''set''
                                    [N (ex_node (IStr ''e'') [] (Some UINT256_T) (Some MEMORY)),
                                     N (from_list
                                          (L ''elem'' [N (ex_lower (Name ''a'')),
                                                       N (from_list (S ''for_list_ix__'') (Some UINT256_T) None None)])
                                          None (Some STORAGE) None)])
                                 None None None),
                            N (from_list
                                 (L ''seq'' [N (set_annotation (Some ''pass'') (from_list (S ''pass'') None None None)),
                                             S ''pass''])
                                 None None None)]]])
                  None None None)),
        ex_ctx\<lparr>internals := 3\<rparr>)
   \<and> parse_For_list ex_env ''e'' (Some UINT256_T) (ListLit [IntLit 1, IntLit 2, IntLit 3]) [Stmt (Some ''pass'') False Pass] ex_ctx
     = (Inr (N (from_list
                  (L ''seq''
                     [N (from_list (L ''set'' [N (ex_node (IInt 3) [] (Some (SArrayT UINT256_T 3)) (Some MEMORY)), N (ex_lower (ListLit [IntLit 1, IntLit 2, IntLit 3]))]) None None None),
                      L ''repeat''
                        [N (from_list (S ''for_list_ix__'') (Some UINT256_T) None None),
                         I 0, I 3, I 3,
                         L ''seq''
                           [N (from_list
                                 (L ''set''
                                    [N (ex_node (IStr ''e'') [] (Some UINT256_T) (Some MEMORY)),
                                     N (from_list
                                          (L ''elem'' [N (ex_node (IInt 3) [] (Some (SArrayT UINT256_T 3)) (Some MEMORY)),
                                                       N (from_list (S ''for_list_ix__'') (Some UINT256_T) None None)])
                                          None (Some MEMORY) None)])
                                 None None None),
                            N (from_list
                                 (L ''seq'' [N (set_annotation (Some ''pass'') (from_list (S ''pass'') None None None)),
                                             S ''pass''])
                                 None None None)]]])
                  None None None)),
        ex_ctx\<lparr>internals := 4\<rparr>)
   \<and> parse_For_list ex_env ''e'' (Some UINT256_T) (Call (Name ''dyn'') [] []) [Stmt (Some ''pass'') False Pass] ex_ctx
     = (Inr (N (from_list
                  (L ''seq''
                     [N (from_list (L ''set'' [N (ex_node (IInt 3) [] (Some (DArrayT UINT256_T 4)) (Some MEMORY)), N (ex_lower (Call (Name ''dyn'') [] []))]) None None None),
                      L ''repeat''
                        [N (from_list (S ''for_list_ix__'') (Some UINT256_T) None None),
                         I 0, N (from_list (L ''load'' [N (ex_node (IInt 3) [] (Some (DArrayT UINT256_T 4)) (Some MEMORY))]) (Some UINT256_T) None None), I 4,
                         L ''seq''
                           [N (from_list
                                 (L ''set''
                                    [N (ex_node (IStr ''e'') [] (Some UINT256_T) (Some MEMORY)),
                                     N (from_list
                                          (L ''elem'' [N (ex_node (IInt 3) [] (Some (DArrayT UINT256_T 4)) (Some MEMORY)),
                                                       N (from_list (S ''for_list_ix__'') (Some UINT256_T) None None)])
                                          None (Some MEMORY) None)])
                                 None None None),
                            N (from_list
                                 (L ''seq'' [N (set_annotation (Some ''pass'') (from_list (S ''pass'') None None None)),
                                             S ''pass''])
                                 None None None)]]])
                  None None None)),
        ex_ctx\<lparr>internals := 4\<rparr>)"
  (is "?A \<and> ?B \<and> ?C \<and> ?D")
proof -
  let ?i = "from_list (S ''for_list_ix__'') (Some UINT256_T) None None"
  let ?ev = "ex_node (IStr ''e'') [] (Some UINT256_T) (Some MEMORY)"
  let ?body = "[Stmt (Some ''pass'') False Pass]"
  let ?body_ir = "from_list
                    (L ''seq'' [N (set_annotation (Some ''pass'') (from_list (S ''pass'') None None None)),
                                S ''pass''])
                    None None None"
  have a: ?A
  proof -
    let ?src = "ex_lower (Name ''b'')"
    let ?il = "ex_lower (Name ''b'')"
    let ?lt = "SArrayT UINT256_T 4"
    let ?c2 = "ex_ctx\<lparr>internals := 3\<rparr>"
    let ?c3 = "ex_ctx\<lparr>internals := 3, forvars := [''e'' \<mapsto> True]\<rparr>"
    let ?copy = "from_list (L ''set'' [N ?il, N ?src]) None None None"
    let ?e = "from_list (L ''elem'' [N ?il, N ?i]) None (Some STORAGE) None"
    have it: "Expr_ir ex_env (Name ''b'') False (enter (range_scope ex_env) ex_ctx) = (Inr ?src, ex_ctx\<lparr>internals := 1\<rparr>)"
      by (simp add: ex_defs)
    have ity: "ir_typ ?src = Some ?lt"
      by (simp add: ex_defs model_defs)
    have lty: "?lt = SArrayT UINT256_T 4 \<or> ?lt = DArrayT UINT256_T 4"
      by simp
    have nv: "new_variable ex_env ''e'' UINT256_T (leave (range_scope ex_env) (ex_ctx\<lparr>internals := 1\<rparr>))
                = (Inr ?ev, ex_ctx\<lparr>internals := 2\<rparr>)"
      by (simp add: ex_defs)
    have fv: "fresh_varname ex_env ''for_list_ix'' (ex_ctx\<lparr>internals := 2\<rparr>) = (Inr ''for_list_ix__'', ?c2)"
      by (simp add: ex_defs numeral_2_eq_2)
    have stage: "(is_pointer ?src \<and> [] = [] \<and> ?il = ?src
                     \<and> ?c3 = ?c2\<lparr>forvars := (forvars ?c2)(''e'' \<mapsto> True)\<rparr>)
                \<or> (\<not> is_pointer ?src
                     \<and> new_internal_variable ex_env (Some ?lt) (?c2\<lparr>forvars := (forvars ?c2)(''e'' \<mapsto> True)\<rparr>)
                         = (Inr ?il, ?c3)
                     \<and> ir_typ ?il = Some ?lt
                     \<and> make_setter ex_env ?il ?src = Inr ?copy \<and> [] = [N ?copy])"
      by (simp add: ex_defs model_defs)
    have el: "get_element_ptr ex_env (snd (cache_when_complex ex_env ?il ''list_iter'')) ?i False = Inr ?e"
      by (simp add: ex_defs model_defs)
    have st: "make_setter ex_env ?ev ?e = Inr (from_list (L ''set'' [N ?ev, N ?e]) None None None)"
      by (simp add: ex_defs)
    have body: "parse_body ex_env ?body False ?c3 = (Inr ?body_ir, ?c3)"
      by (simp add: stmt_defs ex_defs model_defs)
    have reg: "forvars ?c3 ''e'' \<noteq> None" by simp
    have len: "?lt = DArrayT UINT256_T 4 \<longrightarrow>
                 get_dyn_array_count ex_env (snd (cache_when_complex ex_env ?il ''list_iter''))
                   = Inr (from_list (L ''load'' [N ?il]) (Some UINT256_T) None None)"
      by (simp add: ex_defs model_defs)
    from list_loop_rounds [OF it ity lty nv fv stage el st body reg len]
    show ?thesis by (simp add: ex_defs model_defs)
  qed
  have b: ?B
  proof -
    let ?src = "ex_lower (Name ''a'')"
    let ?il = "ex_lower (Name ''a'')"
    let ?lt = "DArrayT UINT256_T 4"
    let ?c2 = "ex_ctx\<lparr>internals := 3\<rparr>"
    let ?c3 = "ex_ctx\<lparr>internals := 3, forvars := [''e'' \<mapsto> True]\<rparr>"
    let ?copy = "from_list (L ''set'' [N ?il, N ?src]) None None None"
    let ?e = "from_list (L ''elem'' [N ?il, N ?i]) None (Some STORAGE) None"
    have it: "Expr_ir ex_env (Name ''a'') False (enter (range_scope ex_env) ex_ctx) = (Inr ?src, ex_ctx\<lparr>internals := 1\<rparr>)"
      by (simp add: ex_defs)
    have ity: "ir_typ ?src = Some ?lt"
      by (simp add: ex_defs model_defs)
    have lty: "?lt = SArrayT UINT256_T 4 \<or> ?lt = DArrayT UINT256_T 4"
      by simp
    have nv: "new_variable ex_env ''e'' UINT256_T (leave (range_scope ex_env) (ex_ctx\<lparr>internals := 1\<rparr>))
                = (Inr ?ev, ex_ctx\<lparr>internals := 2\<rparr>)"
      by (simp add: ex_defs)
    have fv: "fresh_varname ex_env ''for_list_ix'' (ex_ctx\<lparr>internals := 2\<rparr>) = (Inr ''for_list_ix__'', ?c2)"
      by (simp add: ex_defs numeral_2_eq_2)
    have stage: "(is_pointer ?src \<and> [] = [] \<and> ?il = ?src
                     \<and> ?c3 = ?c2\<lparr>forvars := (forvars ?c2)(''e'' \<mapsto> True)\<rparr>)
                \<or> (\<not> is_pointer ?src
                     \<and> new_internal_variable ex_env (Some ?lt) (?c2\<lparr>forvars := (forvars ?c2)(''e'' \<mapsto> True)\<rparr>)
                         = (Inr ?il, ?c3)
                     \<and> ir_typ ?il = Some ?lt
                     \<and> make_setter ex_env ?il ?src = Inr ?copy \<and> [] = [N ?copy])"
      by (simp add: ex_defs model_defs)
    have el: "get_element_ptr ex_env (snd (cache_when_complex ex_env ?il ''list_iter'')) ?i False = Inr ?e"
      by (simp add: ex_defs model_defs)
    have st: "make_setter ex_env ?ev ?e = Inr (from_list (L ''set'' [N ?ev, N ?e]) None None None)"
      by (simp add: ex_defs)
    have body: "parse_body ex_env ?body False ?c3 = (Inr ?body_ir, ?c3)"
      by (simp add: stmt_defs ex_defs model_defs)
    have reg: "forvars ?c3 ''e'' \<noteq> None" by simp
    have len: "?lt = DArrayT UINT256_T 4 \<longrightarrow>
                 get_dyn_array_count ex_env (snd (cache_when_complex ex_env ?il ''list_iter''))
                   = Inr (from_list (L ''load'' [N ?il]) (Some UINT256_T) None None)"
      by (simp add: ex_defs model_defs)
    from list_loop_rounds [OF it ity lty nv fv stage el st body reg len]
    show ?thesis by (simp add: ex_defs model_defs)
  qed
  have c: ?C
  proof -
    let ?src = "ex_lower (ListLit [IntLit 1, IntLit 2, IntLit 3])"
    let ?il = "ex_node (IInt 3) [] (Some (SArrayT UINT256_T 3)) (Some MEMORY)"
    let ?lt = "SArrayT UINT256_T 3"
    let ?c2 = "ex_ctx\<lparr>internals := 3\<rparr>"
    let ?c3 = "ex_ctx\<lparr>internals := 4, forvars := [''e'' \<mapsto> True]\<rparr>"
    let ?copy = "from_list (L ''set'' [N ?il, N ?src]) None None None"
    let ?e = "from_list (L ''elem'' [N ?il, N ?i]) None (Some MEMORY) None"
    have it: "Expr_ir ex_env (ListLit [IntLit 1, IntLit 2, IntLit 3]) False (enter (range_scope ex_env) ex_ctx) = (Inr ?src, ex_ctx\<lparr>internals := 1\<rparr>)"
      by (simp add: ex_defs)
    have ity: "ir_typ ?src = Some ?lt"
      by (simp add: ex_defs model_defs)
    have lty: "?lt = SArrayT UINT256_T 3 \<or> ?lt = DArrayT UINT256_T 3"
      by simp
    have nv: "new_variable ex_env ''e'' UINT256_T (leave (range_scope ex_env) (ex_ctx\<lparr>internals := 1\<rparr>))
                = (Inr ?ev, ex_ctx\<lparr>internals := 2\<rparr>)"
      by (simp add: ex_defs)
    have fv: "fresh_varname ex_env ''for_list_ix'' (ex_ctx\<lparr>internals := 2\<rparr>) = (Inr ''for_list_ix__'', ?c2)"
      by (simp add: ex_defs numeral_2_eq_2)
    have stage: "(is_pointer ?src \<and> [N ?copy] = [] \<and> ?il = ?src
                     \<and> ?c3 = ?c2\<lparr>forvars := (forvars ?c2)(''e'' \<mapsto> True)\<rparr>)
                \<or> (\<not> is_pointer ?src
                     \<and> new_internal_variable ex_env (Some ?lt) (?c2\<lparr>forvars := (forvars ?c2)(''e'' \<mapsto> True)\<rparr>)
                         = (Inr ?il, ?c3)
                     \<and> ir_typ ?il = Some ?lt
                     \<and> make_setter ex_env ?il ?src = Inr ?copy \<and> [N ?copy] = [N ?copy])"
      by (simp add: ex_defs model_defs)
    have el: "get_element_ptr ex_env (snd (cache_when_complex ex_env ?il ''list_iter'')) ?i False = Inr ?e"
      by (simp add: ex_defs model_defs)
    have st: "make_setter ex_env ?ev ?e = Inr (from_list (L ''set'' [N ?ev, N ?e]) None None None)"
      by (simp add: ex_defs)
    have body: "parse_body ex_env ?body False ?c3 = (Inr ?body_ir, ?c3)"
      by (simp add: stmt_defs ex_defs model_defs)
    have reg: "forvars ?c3 ''e'' \<noteq> None" by simp
    have len: "?lt = DArrayT UINT256_T 3 \<longrightarrow>
                 get_dyn_array_count ex_env (snd (cache_when_complex ex_env ?il ''list_iter''))
                   = Inr (from_list (L ''load'' [N ?il]) (Some UINT256_T) None None)"
      by (simp add: ex_defs model_defs)
    from list_loop_rounds [OF it ity lty nv fv stage el st body reg len]
    show ?thesis by (simp add: ex_defs model_defs)
  qed
  have d: ?D
  proof -
    let ?src = "ex_lower (Call (Name ''dyn'') [] [])"
    let ?il = "ex_node (IInt 3) [] (Some (DArrayT UINT256_T 4)) (Some MEMORY)"
    let ?lt = "DArrayT UINT256_T 4"
    let ?c2 = "ex_ctx\<lparr>internals := 3\<rparr>"
    let ?c3 = "ex_ctx\<lparr>internals := 4, forvars := [''e'' \<mapsto> True]\<rparr>"
    let ?copy = "from_list (L ''set'' [N ?il, N ?src]) None None None"
    let ?e = "from_list (L ''elem'' [N ?il, N ?i]) None (Some MEMORY) None"
    have it: "Expr_ir ex_env (Call (Name ''dyn'') [] []) False (enter (range_scope ex_env) ex_ctx) = (Inr ?src, ex_ctx\<lparr>internals := 1\<rparr>)"
      by (simp add: ex_defs)
    have ity: "ir_typ ?src = Some ?lt"
      by (simp add: ex_defs model_defs)
    have lty: "?lt = SArrayT UINT256_T 4 \<or> ?lt = DArrayT UINT256_T 4"
      by simp
    have nv: "new_variable ex_env ''e'' UINT256_T (leave (range_scope ex_env) (ex_ctx\<lparr>internals := 1\<rparr>))
                = (Inr ?ev, ex_ctx\<lparr>internals := 2\<rparr>)"
      by (simp add: ex_defs)
    have fv: "fresh_varname ex_env ''for_list_ix'' (ex_ctx\<lparr>internals := 2\<rparr>) = (Inr ''for_list_ix__'', ?c2)"
      by (simp add: ex_defs numeral_2_eq_2)
    have stage: "(is_pointer ?src \<and> [N ?copy] = [] \<and> ?il = ?src
                     \<and> ?c3 = ?c2\<lparr>forvars := (forvars ?c2)(''e'' \<mapsto> True)\<rparr>)
                \<or> (\<not> is_pointer ?src
                     \<and> new_internal_variable ex_env (Some ?lt) (?c2\<lparr>forvars := (forvars ?c2)(''e'' \<mapsto> True)\<rparr>)
                         = (Inr ?il, ?c3)
                     \<and> ir_typ ?il = Some ?lt
                     \<and> make_setter ex_env ?il ?src = Inr ?copy \<and> [N ?copy] = [N ?copy])"
      by (simp add: ex_defs model_defs)
    have el: "get_element_ptr ex_env (snd (cache_when_complex ex_env ?il ''list_iter'')) ?i False = Inr ?e"
      by (simp add: ex_defs model_defs)
    have st: "make_setter ex_env ?ev ?e = Inr (from_list (L ''set'' [N ?ev, N ?e]) None None None)"
      by (simp add: ex_defs)
    have body: "parse_body ex_env ?body False ?c3 = (Inr ?body_ir, ?c3)"
      by (simp add: stmt_defs ex_defs model_defs)
    have reg: "forvars ?c3 ''e'' \<noteq> None" by simp
    have len: "?lt = DArrayT UINT256_T 4 \<longrightarrow>
                 get_dyn_array_count ex_env (snd (cache_when_complex ex_env ?il ''list_iter''))
                   = Inr (from_list (L ''load'' [N ?il]) (Some UINT256_T) None None)"
      by (simp add: ex_defs model_defs)
    from list_loop_rounds [OF it ity lty nv fv stage el st body reg len]
    show ?thesis by (simp add: ex_defs model_defs)
  qed
  from a b c d show ?thesis by simp
qed

end
